theory Spec2Isabelle
  imports Complex_Main
begin

section \<open>Terrain surface analysis: the model\<close>

text \<open>
  The Python sources compute with IEEE floating point (numpy \<open>float32\<close>, Python \<open>float\<close>).
  The model computes with exact reals: every float is a \<^typ>\<open>real\<close>, and the functions of
  Python's \<open>math\<close> module are the mathematical functions they approximate. Where the source
  divides by a quantity that may be zero, the model says what Python does there: a Python
  \<open>float\<close> or \<open>int\<close> division raises \<open>ZeroDivisionError\<close>, a numpy division yields
  \<open>inf\<close> or \<open>nan\<close>, which no real number stands for, so the model then returns
  \<open>NonFinite\<close> and does not follow the computation further (the program goes on computing
  with \<open>inf\<close> and \<open>nan\<close>, and returns a raster).

  The model does not round. The program's values differ from the model's by the rounding of
  each operation; where a rounding is known to change what a comparison or an interval bound
  sees, the text at the definition says so, and no theorem below states that bound.
\<close>

subsection \<open>Errors and the math module\<close>

datatype py_error =
    ValueError string
  | IndexError
  | ZeroDivisionError
  | OtherException string string
  | NonFinite

text \<open>
  \<open>type(e).__name__\<close> and \<open>str(e)\<close>. \<open>OtherException\<close> is an exception of any other class,
  raised by a collaborator, with its class name and message. \<open>NonFinite\<close> is not an exception.
\<close>

fun exc_name :: "py_error \<Rightarrow> string" where
  "exc_name (ValueError msg) = ''ValueError''"
| "exc_name IndexError = ''IndexError''"
| "exc_name ZeroDivisionError = ''ZeroDivisionError''"
| "exc_name (OtherException name msg) = name"
| "exc_name NonFinite = ''NonFinite''"

fun exc_str :: "py_error \<Rightarrow> string" where
  "exc_str (ValueError msg) = msg"
| "exc_str IndexError = ''index out of range''"
| "exc_str ZeroDivisionError = ''float division by zero''"
| "exc_str (OtherException name msg) = msg"
| "exc_str NonFinite = []"

definition radians :: "real \<Rightarrow> real" where
  "radians d = d * pi / 180"

definition degrees :: "real \<Rightarrow> real" where
  "degrees r = r * 180 / pi"

text \<open>\<open>math.atan2(y, x)\<close>: the angle of the point \<open>(x, y)\<close>, in \<open>(-pi, pi]\<close>, and 0 at the origin.\<close>

definition atan2 :: "real \<Rightarrow> real \<Rightarrow> real" where
  "atan2 y x =
     (if 0 < x then arctan (y / x)
      else if x < 0 then (if 0 \<le> y then arctan (y / x) + pi else arctan (y / x) - pi)
      else if 0 < y then pi / 2
      else if y < 0 then - (pi / 2)
      else 0)"

subsection \<open>Rasters\<close>

text \<open>
  A GDAL dataset with one band. \<open>ReadAsArray\<close> is the numpy array of the band, of shape
  \<open>(RasterYSize, RasterXSize)\<close>, indexed \<open>[y, x]\<close>; only the cells inside the shape mean
  anything. \<open>GeoTransform\<close> is GDAL's 6-tuple.
\<close>

record geotransform =
  gt0 :: real
  gt1 :: real
  gt2 :: real
  gt3 :: real
  gt4 :: real
  gt5 :: real

record raster =
  RasterXSize :: nat
  RasterYSize :: nat
  GeoTransform :: geotransform
  ReadAsArray :: "nat \<Rightarrow> nat \<Rightarrow> real"
  NoDataValue :: "real option"

text \<open>The cells of the band in row-major order (numpy's \<open>.flat\<close>, and the order of a boolean mask).\<close>

definition flat_cells :: "raster \<Rightarrow> real list" where
  "flat_cells r =
     concat (map (\<lambda>y. map (\<lambda>x. ReadAsArray r y x) [0..<RasterXSize r]) [0..<RasterYSize r])"

subsection \<open>slope_operations.py: classification and statistics\<close>

record thresholds =
  flat :: real
  moderate :: real
  steep :: real

text \<open>
  \<open>classify_slope\<close>: the array starts at 0 and four masked assignments follow, in this order;
  a later assignment overwrites an earlier one.
\<close>

definition classify_slope_cell :: "thresholds \<Rightarrow> real \<Rightarrow> nat" where
  "classify_slope_cell t s =
     (let c0 = 0;
          c1 = (if s \<le> flat t then 1 else c0);
          c2 = (if flat t < s \<and> s \<le> moderate t then 2 else c1);
          c3 = (if moderate t < s \<and> s \<le> steep t then 3 else c2);
          c4 = (if steep t < s then 4 else c3)
      in c4)"

definition classify_slope :: "raster \<Rightarrow> thresholds \<Rightarrow> nat \<Rightarrow> nat \<Rightarrow> nat" where
  "classify_slope slope t = (\<lambda>y x. classify_slope_cell t (ReadAsArray slope y x))"

record slope_stats =
  meanSlope :: real
  medianSlope :: real
  maxSlope :: real
  flatPercent :: real
  moderatePercent :: real
  steepPercent :: real
  verySteepPercent :: real
  unbuildablePercent :: real

text \<open>\<open>np.sum\<close> of a boolean mask: the number of cells where it holds.\<close>

definition np_count :: "(real \<Rightarrow> bool) \<Rightarrow> real list \<Rightarrow> nat" where
  "np_count P xs = length (filter P xs)"

definition np_mean :: "real list \<Rightarrow> real" where
  "np_mean xs = sum_list xs / real (length xs)"

definition np_median :: "real list \<Rightarrow> real" where
  "np_median xs =
     (let s = sort xs; n = length s
      in if odd n then s ! (n div 2) else (s ! (n div 2 - 1) + s ! (n div 2)) / 2)"

definition np_max :: "real list \<Rightarrow> real" where
  "np_max xs = fold max (tl xs) (hd xs)"

text \<open>
  \<open>calculate_slope_statistics\<close>. On an array with no valid cell \<open>np.max\<close> raises
  \<open>ValueError\<close> (a zero-size array has no maximum); \<open>np.mean\<close> and \<open>np.median\<close> before it
  only warn.
\<close>

definition calculate_slope_statistics ::
  "raster \<Rightarrow> thresholds \<Rightarrow> real \<Rightarrow> py_error + slope_stats" where
  "calculate_slope_statistics slope t max_buildable_slope =
     (let valid_slope = filter (\<lambda>v. v \<noteq> - 9999) (flat_cells slope)
      in if valid_slope = []
         then Inl (ValueError ''zero-size array to reduction operation maximum which has no identity'')
         else
           let mean_slope = np_mean valid_slope;
               median_slope = np_median valid_slope;
               max_slope = np_max valid_slope;
               total_cells = length valid_slope;
               flat_count = np_count (\<lambda>v. v \<le> flat t) valid_slope;
               moderate_count = np_count (\<lambda>v. flat t < v \<and> v \<le> moderate t) valid_slope;
               steep_count = np_count (\<lambda>v. moderate t < v \<and> v \<le> steep t) valid_slope;
               very_steep_count = np_count (\<lambda>v. steep t < v) valid_slope;
               unbuildable_count = np_count (\<lambda>v. max_buildable_slope < v) valid_slope
           in Inr \<lparr> meanSlope = mean_slope,
                    medianSlope = median_slope,
                    maxSlope = max_slope,
                    flatPercent = real flat_count / real total_cells * 100,
                    moderatePercent = real moderate_count / real total_cells * 100,
                    steepPercent = real steep_count / real total_cells * 100,
                    verySteepPercent = real very_steep_count / real total_cells * 100,
                    unbuildablePercent = real unbuildable_count / real total_cells * 100 \<rparr>)"

subsection \<open>slope_operations.py: the slope raster\<close>

text \<open>The cell size in meters, as \<open>calculate_slope\<close> derives it from the geotransform.\<close>

definition slope_cell_size_x_m :: "raster \<Rightarrow> real" where
  "slope_cell_size_x_m dataset =
     (let geotransform = GeoTransform dataset;
          cell_size_x = \<bar>gt1 geotransform\<bar>;
          center_lat = (real (RasterYSize dataset) * gt5 geotransform / 2) + gt3 geotransform;
          meters_per_degree_x = 111320 * \<bar>cos (radians center_lat)\<bar>
      in cell_size_x * meters_per_degree_x)"

definition slope_cell_size_y_m :: "raster \<Rightarrow> real" where
  "slope_cell_size_y_m dataset =
     (let geotransform = GeoTransform dataset;
          cell_size_y = \<bar>gt5 geotransform\<bar>;
          meters_per_degree_y = 111320
      in cell_size_y * meters_per_degree_y)"

text \<open>The cells the two nested loops visit: \<open>y\<close> in \<open>range(1, height - 1)\<close>, \<open>x\<close> in \<open>range(1, width - 1)\<close>.\<close>

definition interior :: "nat \<Rightarrow> nat \<Rightarrow> nat \<Rightarrow> nat \<Rightarrow> bool" where
  "interior height width y x \<longleftrightarrow> 1 \<le> y \<and> y + 1 < height \<and> 1 \<le> x \<and> x + 1 < width"

definition central_difference :: "(nat \<Rightarrow> nat \<Rightarrow> real) \<Rightarrow> real \<Rightarrow> real \<Rightarrow> nat \<Rightarrow> nat \<Rightarrow> real \<times> real" where
  "central_difference elevation cell_size_x_m cell_size_y_m y x =
     (let dz_dx = (elevation y (x + 1) - elevation y (x - 1)) / (2 * cell_size_x_m);
          dz_dy = (elevation (y + 1) x - elevation (y - 1) x) / (2 * cell_size_y_m)
      in (dz_dx, dz_dy))"

text \<open>
  The interior cells of the slope array; the array is created with \<open>np.zeros_like\<close>, so the
  other cells are 0 after the loops.
\<close>

definition slope_interior ::
  "(nat \<Rightarrow> nat \<Rightarrow> real) \<Rightarrow> real \<Rightarrow> real \<Rightarrow> nat \<Rightarrow> nat \<Rightarrow> nat \<Rightarrow> nat \<Rightarrow> real" where
  "slope_interior elevation cell_size_x_m cell_size_y_m height width =
     (\<lambda>y x.
        if interior height width y x
        then (let (dz_dx, dz_dy) = central_difference elevation cell_size_x_m cell_size_y_m y x
              in sqrt (dz_dx * dz_dx + dz_dy * dz_dy) * 100)
        else 0)"

text \<open>The slice assignments \<open>a[dst, :] = a[src, :]\<close> and \<open>a[:, dst] = a[:, src]\<close>.\<close>

definition copy_row :: "nat \<Rightarrow> nat \<Rightarrow> (nat \<Rightarrow> nat \<Rightarrow> real) \<Rightarrow> nat \<Rightarrow> nat \<Rightarrow> real" where
  "copy_row dst src a = (\<lambda>y x. if y = dst then a src x else a y x)"

definition copy_col :: "nat \<Rightarrow> nat \<Rightarrow> (nat \<Rightarrow> nat \<Rightarrow> real) \<Rightarrow> nat \<Rightarrow> nat \<Rightarrow> real" where
  "copy_col dst src a = (\<lambda>y x. if x = dst then a y src else a y x)"

text \<open>
  \<open>calculate_slope\<close>. \<open>gaussian_filter\<close> is scipy's, a parameter here: it takes sigma and an
  array to an array of the same shape. The four slice assignments after the loops are whole-array
  steps, in the source's order; \<open>slope[1, :]\<close> and \<open>slope[:, 1]\<close> raise \<open>IndexError\<close> on an
  array with a single row or column. Every interior cell divides by both cell sizes, so a cell
  size of zero leaves \<open>inf\<close> or \<open>nan\<close> in the array as soon as there is an interior cell;
  the model answers \<open>NonFinite\<close> for such an input.
\<close>

definition calculate_slope ::
  "(real \<Rightarrow> (nat \<Rightarrow> nat \<Rightarrow> real) \<Rightarrow> (nat \<Rightarrow> nat \<Rightarrow> real)) \<Rightarrow> raster \<Rightarrow> bool \<Rightarrow> int
     \<Rightarrow> py_error + raster" where
  "calculate_slope gaussian_filter dataset smoothing_enabled smoothing_kernel_size =
     (let geotransform = GeoTransform dataset;
          cell_size_x_m = slope_cell_size_x_m dataset;
          cell_size_y_m = slope_cell_size_y_m dataset;
          width = RasterXSize dataset;
          height = RasterYSize dataset;
          elevation = ReadAsArray dataset;
          elevation = (if smoothing_enabled
                       then gaussian_filter (real_of_int smoothing_kernel_size / 3) elevation
                       else elevation);
          slope = slope_interior elevation cell_size_x_m cell_size_y_m height width;
          slope = copy_row 0 1 slope;
          slope = copy_row (height - 1) (height - 2) slope;
          slope = copy_col 0 1 slope;
          slope = copy_col (width - 1) (width - 2) slope
      in if height < 2 \<or> width < 2 then Inl IndexError
         else if 3 \<le> height \<and> 3 \<le> width \<and> (cell_size_x_m = 0 \<or> cell_size_y_m = 0)
         then Inl NonFinite
         else Inr \<lparr> RasterXSize = width, RasterYSize = height, GeoTransform = geotransform,
                    ReadAsArray = slope, NoDataValue = Some (- 9999) \<rparr>)"

subsection \<open>aspect_operations.py: the aspect raster\<close>

definition aspect_cell_size_x_m :: "raster \<Rightarrow> real" where
  "aspect_cell_size_x_m dem_dataset =
     (let geotransform = GeoTransform dem_dataset;
          cell_size_x_deg = gt1 geotransform;
          cell_size_y_deg = \<bar>gt5 geotransform\<bar>;
          lat_c = gt3 geotransform - (cell_size_y_deg * real (RasterYSize dem_dataset) / 2);
          meters_per_deg_lng = 111320 * cos (radians lat_c)
      in cell_size_x_deg * meters_per_deg_lng)"

definition aspect_cell_size_y_m :: "raster \<Rightarrow> real" where
  "aspect_cell_size_y_m dem_dataset =
     (let geotransform = GeoTransform dem_dataset;
          cell_size_y_deg = \<bar>gt5 geotransform\<bar>;
          meters_per_deg_lat = 111320
      in cell_size_y_deg * meters_per_deg_lat)"

text \<open>
  The aspect of one cell from its two gradients: the body of the inner loop after the
  differences. At a zero gradient IEEE's \<open>atan2\<close> follows the signs of the two zeros: with
  a positive cell size the program computes \<open>math.atan2(0.0, -0.0)\<close>, which is \<open>pi\<close>, and
  stores 270, where the reals have one zero, \<open>atan2 0 0 = 0\<close>, and the model has 90; both
  are bearings and neither is the sentinel. The program then stores \<open>aspect_deg\<close> into a
  \<open>float32\<close> array: a double below 360 and within \<open>1.5e-5\<close> of it is stored as
  \<open>360.0\<close> (gradients \<open>dz_dx = 2 ** -13\<close>, \<open>dz_dy = 512\<close> give \<open>359.99998634\<close>). The
  model keeps the value before the store, so no theorem below states an upper bound of a
  stored cell.
\<close>

definition aspect_of_gradient :: "real \<Rightarrow> real \<Rightarrow> real" where
  "aspect_of_gradient dz_dx dz_dy =
     (let aspect_rad = atan2 dz_dy (- dz_dx);
          aspect_deg = degrees aspect_rad;
          aspect_deg = 90 - aspect_deg;
          aspect_deg = (if aspect_deg < 0 then aspect_deg + 360 else aspect_deg);
          aspect_deg = (if aspect_deg \<ge> 360 then aspect_deg - 360 else aspect_deg)
      in aspect_deg)"

text \<open>The interior cells of the aspect array; the array is created full of \<open>-1\<close>.\<close>

definition aspect_interior ::
  "(nat \<Rightarrow> nat \<Rightarrow> real) \<Rightarrow> (nat \<Rightarrow> nat \<Rightarrow> real) \<Rightarrow> real \<Rightarrow> real \<Rightarrow> real \<Rightarrow> nat \<Rightarrow> nat
     \<Rightarrow> nat \<Rightarrow> nat \<Rightarrow> real" where
  "aspect_interior elevation slope flat_threshold cell_size_x_m cell_size_y_m height width =
     (\<lambda>y x.
        if interior height width y x
        then (if slope y x < flat_threshold then - 1
              else (let (dz_dx, dz_dy) =
                          central_difference elevation cell_size_x_m cell_size_y_m y x
                    in aspect_of_gradient dz_dx dz_dy))
        else - 1)"

text \<open>
  The edge loops: \<open>if a[src, x] != -1: a[dst, x] = a[src, x]\<close> for every \<open>x\<close>, and the same
  by columns for every \<open>y\<close>.
\<close>

definition copy_row_defined :: "nat \<Rightarrow> nat \<Rightarrow> (nat \<Rightarrow> nat \<Rightarrow> real) \<Rightarrow> nat \<Rightarrow> nat \<Rightarrow> real" where
  "copy_row_defined dst src a = (\<lambda>y x. if y = dst \<and> a src x \<noteq> - 1 then a src x else a y x)"

definition copy_col_defined :: "nat \<Rightarrow> nat \<Rightarrow> (nat \<Rightarrow> nat \<Rightarrow> real) \<Rightarrow> nat \<Rightarrow> nat \<Rightarrow> real" where
  "copy_col_defined dst src a = (\<lambda>y x. if x = dst \<and> a y src \<noteq> - 1 then a y src else a y x)"

text \<open>
  \<open>calculate_aspect\<close>. The loops run over the DEM's width and height and read the slope raster
  at the same indices, so a smaller slope raster raises \<open>IndexError\<close>. The two edge loops
  write one column (one row) per iteration and read only that column (row), so each is the
  same as its first statement on the whole array followed by its second; \<open>aspect[1, x]\<close> and
  \<open>aspect[y, 1]\<close> raise \<open>IndexError\<close> when there is no such row or column. A cell that is
  not flat divides by both cell sizes: with a cell size of zero its gradient is \<open>inf\<close> or
  \<open>nan\<close> in the program, which still returns a raster; the model answers \<open>NonFinite\<close>
  for such an input and describes no cell of it.
\<close>

definition calculate_aspect :: "raster \<Rightarrow> raster \<Rightarrow> real \<Rightarrow> py_error + raster" where
  "calculate_aspect dem_dataset slope_dataset flat_threshold =
     (let width = RasterXSize dem_dataset;
          height = RasterYSize dem_dataset;
          geotransform = GeoTransform dem_dataset;
          cell_size_x_m = aspect_cell_size_x_m dem_dataset;
          cell_size_y_m = aspect_cell_size_y_m dem_dataset;
          elevation = ReadAsArray dem_dataset;
          slope = ReadAsArray slope_dataset;
          aspect = aspect_interior elevation slope flat_threshold cell_size_x_m cell_size_y_m
                     height width;
          aspect = copy_row_defined 0 1 aspect;
          aspect = copy_row_defined (height - 1) (height - 2) aspect;
          aspect = copy_col_defined 0 1 aspect;
          aspect = copy_col_defined (width - 1) (width - 2) aspect
      in if 3 \<le> height \<and> 3 \<le> width
            \<and> \<not> (height - 1 \<le> RasterYSize slope_dataset \<and> width - 1 \<le> RasterXSize slope_dataset)
         then Inl IndexError
         else if (1 \<le> width \<and> height < 2) \<or> (1 \<le> height \<and> width < 2) then Inl IndexError
         else if (cell_size_x_m = 0 \<or> cell_size_y_m = 0)
                 \<and> list_ex (\<lambda>y. list_ex (\<lambda>x. \<not> slope y x < flat_threshold) [1..<width - 1])
                       [1..<height - 1]
         then Inl NonFinite
         else Inr \<lparr> RasterXSize = width, RasterYSize = height, GeoTransform = geotransform,
                    ReadAsArray = aspect, NoDataValue = Some (- 1) \<rparr>)"

subsection \<open>aspect_operations.py: classification and statistics\<close>

text \<open>\<open>classify_aspect\<close>, one cell: 0 is Flat, 1 to 8 are N, NE, E, SE, S, SW, W, NW.\<close>

definition classify_aspect_cell :: "real \<Rightarrow> nat" where
  "classify_aspect_cell angle =
     (if angle < 0 then 0
      else if angle \<ge> 337.5 \<or> angle < 22.5 then 1
      else if 22.5 \<le> angle \<and> angle < 67.5 then 2
      else if 67.5 \<le> angle \<and> angle < 112.5 then 3
      else if 112.5 \<le> angle \<and> angle < 157.5 then 4
      else if 157.5 \<le> angle \<and> angle < 202.5 then 5
      else if 202.5 \<le> angle \<and> angle < 247.5 then 6
      else if 247.5 \<le> angle \<and> angle < 292.5 then 7
      else 8)"

definition classify_aspect :: "raster \<Rightarrow> nat \<Rightarrow> nat \<Rightarrow> nat" where
  "classify_aspect aspect = (\<lambda>y x. classify_aspect_cell (ReadAsArray aspect y x))"

text \<open>The \<open>counts\<close> dictionary of \<open>calculate_aspect_statistics\<close>, one field per key.\<close>

record aspect_counts =
  c_flat :: nat
  c_N :: nat
  c_NE :: nat
  c_E :: nat
  c_SE :: nat
  c_S :: nat
  c_SW :: nat
  c_W :: nat
  c_NW :: nat
  c_northFacing :: nat
  c_southFacing :: nat

definition counts_init :: aspect_counts where
  "counts_init = \<lparr> c_flat = 0, c_N = 0, c_NE = 0, c_E = 0, c_SE = 0, c_S = 0, c_SW = 0,
                   c_W = 0, c_NW = 0, c_northFacing = 0, c_southFacing = 0 \<rparr>"

text \<open>One iteration of the counting loop: the state is \<open>counts\<close> and \<open>valid_aspects\<close>.\<close>

definition count_step :: "real \<Rightarrow> aspect_counts \<times> real list \<Rightarrow> aspect_counts \<times> real list" where
  "count_step angle st =
     (let counts = fst st; valid_aspects = snd st
      in if angle < 0 then (counts\<lparr>c_flat := c_flat counts + 1\<rparr>, valid_aspects)
         else
           let valid_aspects = valid_aspects @ [angle]
           in if angle \<ge> 337.5 \<or> angle < 22.5
              then (counts\<lparr>c_N := c_N counts + 1, c_northFacing := c_northFacing counts + 1\<rparr>,
                    valid_aspects)
              else if 22.5 \<le> angle \<and> angle < 67.5
              then (counts\<lparr>c_NE := c_NE counts + 1, c_northFacing := c_northFacing counts + 1\<rparr>,
                    valid_aspects)
              else if 67.5 \<le> angle \<and> angle < 112.5
              then (counts\<lparr>c_E := c_E counts + 1\<rparr>, valid_aspects)
              else if 112.5 \<le> angle \<and> angle < 157.5
              then (counts\<lparr>c_SE := c_SE counts + 1, c_southFacing := c_southFacing counts + 1\<rparr>,
                    valid_aspects)
              else if 157.5 \<le> angle \<and> angle < 202.5
              then (counts\<lparr>c_S := c_S counts + 1, c_southFacing := c_southFacing counts + 1\<rparr>,
                    valid_aspects)
              else if 202.5 \<le> angle \<and> angle < 247.5
              then (counts\<lparr>c_SW := c_SW counts + 1, c_southFacing := c_southFacing counts + 1\<rparr>,
                    valid_aspects)
              else if 247.5 \<le> angle \<and> angle < 292.5
              then (counts\<lparr>c_W := c_W counts + 1\<rparr>, valid_aspects)
              else (counts\<lparr>c_NW := c_NW counts + 1, c_northFacing := c_northFacing counts + 1\<rparr>,
                    valid_aspects))"

text \<open>\<open>_get_dominant_direction\<close>: a strict greater-than keeps the earliest direction on a tie.\<close>

definition dominant_step :: "string \<times> nat \<Rightarrow> nat \<times> string \<Rightarrow> nat \<times> string" where
  "dominant_step d st = (if snd d > fst st then (snd d, fst d) else st)"

definition get_dominant_direction :: "aspect_counts \<Rightarrow> string" where
  "get_dominant_direction counts =
     snd (fold dominant_step
            [(''N'', c_N counts), (''NE'', c_NE counts), (''E'', c_E counts),
             (''SE'', c_SE counts), (''S'', c_S counts), (''SW'', c_SW counts),
             (''W'', c_W counts), (''NW'', c_NW counts)]
            (0, ''N''))"

text \<open>
  \<open>_calculate_circular_mean\<close>: the loop accumulates \<open>(sum_sin, sum_cos)\<close>. The only
  normalisation is \<open>if mean_deg < 0: mean_deg += 360\<close>; there is no \<open>>= 360\<close> step as in
  \<open>calculate_aspect\<close>. On the reals the result is below 360. In the program the rounding of
  \<open>math.sin\<close> can leave a tiny negative sum of sines where the exact sum is 0 (for the
  angles 10 and 350 the sum is \<open>-5.55e-17\<close> and \<open>mean_deg\<close> is \<open>-1.61e-15\<close>), and
  \<open>mean_deg + 360\<close> is then the double \<open>360.0\<close>; for the angles 0 and 180 the program's
  sums are \<open>(1.22e-16, 0.0)\<close> and its result 90, where the exact sums are both 0. The model
  is the exact computation; the theorems below are about the percentages of the statistics,
  not about this field.
\<close>

definition circular_step :: "real \<Rightarrow> real \<times> real \<Rightarrow> real \<times> real" where
  "circular_step aspect acc =
     (let rad = radians aspect in (fst acc + sin rad, snd acc + cos rad))"

definition calculate_circular_mean :: "real list \<Rightarrow> real option" where
  "calculate_circular_mean aspects =
     (if aspects = [] then None
      else
        let acc = fold circular_step aspects (0, 0);
            sum_sin = fst acc;
            sum_cos = snd acc;
            n = real (length aspects);
            mean_rad = atan2 (sum_sin / n) (sum_cos / n);
            mean_deg = degrees mean_rad;
            mean_deg = (if mean_deg < 0 then mean_deg + 360 else mean_deg)
        in Some mean_deg)"

record aspect_stats =
  flatPercent :: real
  northPercent :: real
  northeastPercent :: real
  eastPercent :: real
  southeastPercent :: real
  southPercent :: real
  southwestPercent :: real
  westPercent :: real
  northwestPercent :: real
  northFacingPercent :: real
  southFacingPercent :: real
  dominantDirection :: string
  circularMeanAspect :: "real option"

text \<open>
  \<open>calculate_aspect_statistics\<close>. \<open>total_cells\<close> and the counts are Python ints, so an array
  with no cell raises \<open>ZeroDivisionError\<close> at the first percentage.
\<close>

definition calculate_aspect_statistics :: "raster \<Rightarrow> py_error + aspect_stats" where
  "calculate_aspect_statistics aspect =
     (let total_cells = RasterXSize aspect * RasterYSize aspect;
          st = fold count_step (flat_cells aspect) (counts_init, []);
          counts = fst st;
          valid_aspects = snd st
      in if total_cells = 0 then Inl ZeroDivisionError
         else Inr \<lparr>
           flatPercent = real (c_flat counts) / real total_cells * 100,
           northPercent = real (c_N counts) / real total_cells * 100,
           northeastPercent = real (c_NE counts) / real total_cells * 100,
           eastPercent = real (c_E counts) / real total_cells * 100,
           southeastPercent = real (c_SE counts) / real total_cells * 100,
           southPercent = real (c_S counts) / real total_cells * 100,
           southwestPercent = real (c_SW counts) / real total_cells * 100,
           westPercent = real (c_W counts) / real total_cells * 100,
           northwestPercent = real (c_NW counts) / real total_cells * 100,
           northFacingPercent = real (c_northFacing counts) / real total_cells * 100,
           southFacingPercent = real (c_southFacing counts) / real total_cells * 100,
           dominantDirection = get_dominant_direction counts,
           circularMeanAspect =
             (if valid_aspects \<noteq> [] then calculate_circular_mean valid_aspects else None) \<rparr>)"

subsection \<open>profile_operations.py: grades and statistics\<close>

record ProfilePoint =
  distance :: real
  elevation :: real
  lat :: real
  lng :: real
  grade :: real

text \<open>Python's \<open>round\<close> to an integer: halves go to the even neighbour.\<close>

definition py_round :: "real \<Rightarrow> int" where
  "py_round v =
     (if frac v = 1 / 2 then (if even \<lfloor>v\<rfloor> then \<lfloor>v\<rfloor> else \<lfloor>v\<rfloor> + 1) else \<lfloor>v + 1 / 2\<rfloor>)"

text \<open>
  \<open>calculate_grades\<close>: the loop writes the grade of point \<open>i\<close> from points \<open>i - 1\<close> and
  \<open>i\<close>; \<open>profile_points[0]\<close> after it raises \<open>IndexError\<close> on an empty list.
\<close>

definition grade_step :: "nat \<Rightarrow> ProfilePoint list \<Rightarrow> ProfilePoint list" where
  "grade_step i profile_points =
     (let prev = profile_points ! (i - 1);
          curr = profile_points ! i;
          horizontal_distance = distance curr - distance prev;
          elevation_change = elevation curr - elevation prev
      in if horizontal_distance > 0
         then profile_points[i := curr\<lparr>grade := (elevation_change / horizontal_distance) * 100\<rparr>]
         else profile_points[i := curr\<lparr>grade := 0\<rparr>])"

definition calculate_grades :: "ProfilePoint list \<Rightarrow> py_error + ProfilePoint list" where
  "calculate_grades profile_points =
     (let profile_points = fold grade_step [1..<length profile_points] profile_points
      in if profile_points = [] then Inl IndexError
         else Inr (profile_points[0 := (profile_points ! 0)\<lparr>grade := 0\<rparr>]))"

text \<open>\<open>calculate_profile_statistics\<close>: the loop state, and one iteration.\<close>

record excessive_segment =
  seg_start :: real
  seg_end :: real
  seg_grade :: real

record profile_acc =
  elevation_gain :: real
  elevation_loss :: real
  max_grade_uphill :: real
  max_grade_downhill :: real
  excessive_grade_distance :: real
  excessive_segments :: "excessive_segment list"

definition profile_acc_init :: profile_acc where
  "profile_acc_init = \<lparr> elevation_gain = 0, elevation_loss = 0, max_grade_uphill = 0,
                        max_grade_downhill = 0, excessive_grade_distance = 0,
                        excessive_segments = [] \<rparr>"

definition profile_step :: "ProfilePoint list \<Rightarrow> real \<Rightarrow> nat \<Rightarrow> profile_acc \<Rightarrow> profile_acc" where
  "profile_step profile_points max_grade_threshold i acc =
     (let prev = profile_points ! (i - 1);
          curr = profile_points ! i;
          elevation_change = elevation curr - elevation prev;
          segment_distance = distance curr - distance prev;
          grade_v = grade curr;
          acc = (if elevation_change > 0
                 then acc\<lparr>elevation_gain := elevation_gain acc + elevation_change\<rparr>
                 else acc\<lparr>elevation_loss := elevation_loss acc + \<bar>elevation_change\<bar>\<rparr>);
          acc = (if grade_v > max_grade_uphill acc then acc\<lparr>max_grade_uphill := grade_v\<rparr> else acc);
          acc = (if grade_v < max_grade_downhill acc then acc\<lparr>max_grade_downhill := grade_v\<rparr>
                 else acc);
          acc = (if \<bar>grade_v\<bar> > max_grade_threshold
                 then acc\<lparr>excessive_grade_distance := excessive_grade_distance acc + segment_distance,
                          excessive_segments := excessive_segments acc @
                            [\<lparr> seg_start = distance prev, seg_end = distance curr,
                               seg_grade = real_of_int (py_round (grade_v * 10)) / 10 \<rparr>]\<rparr>
                 else acc)
      in acc)"

record profile_stats =
  totalDistance :: real
  elevationGain :: real
  elevationLoss :: real
  netElevationChange :: real
  startElevation :: real
  endElevation :: real
  minElevation :: real
  maxElevation :: real
  maxGradeUphill :: real
  maxGradeDownhill :: real
  excessiveGradeDistance :: real
  excessiveGradePercent :: real
  excessiveSegments :: "excessive_segment list"

definition calculate_profile_statistics ::
  "ProfilePoint list \<Rightarrow> real \<Rightarrow> py_error + profile_stats" where
  "calculate_profile_statistics profile_points max_grade_threshold =
     (let elevations = map elevation profile_points;
          acc = fold (profile_step profile_points max_grade_threshold)
                  [1..<length profile_points] profile_acc_init
      in if profile_points = [] then Inl IndexError
         else
           let total_distance = distance (last profile_points)
           in Inr \<lparr> totalDistance = total_distance,
                    elevationGain = elevation_gain acc,
                    elevationLoss = elevation_loss acc,
                    netElevationChange = elevation (last profile_points) - elevation (hd profile_points),
                    startElevation = elevation (hd profile_points),
                    endElevation = elevation (last profile_points),
                    minElevation = fold min (tl elevations) (hd elevations),
                    maxElevation = fold max (tl elevations) (hd elevations),
                    maxGradeUphill = max_grade_uphill acc,
                    maxGradeDownhill = \<bar>max_grade_downhill acc\<bar>,
                    excessiveGradeDistance = excessive_grade_distance acc,
                    excessiveGradePercent =
                      (if total_distance > 0
                       then (excessive_grade_distance acc / total_distance) * 100 else 0),
                    excessiveSegments = excessive_segments acc \<rparr>)"

subsection \<open>dem-generator: validation.py\<close>

text \<open>A contour as the handler fetches it: its elevation and its GeoJSON geometry.\<close>

record contour =
  contour_elevation :: real
  geometry_type :: string
  geometry_coordinates :: "(real \<times> real) list"

text \<open>Python's \<open>int\<close> of a float truncates towards zero.\<close>

definition py_int :: "real \<Rightarrow> int" where
  "py_int v = (if 0 \<le> v then \<lfloor>v\<rfloor> else \<lceil>v\<rceil>)"

text \<open>\<open>geo_to_pixel\<close> of validation.py: integer pixel indices.\<close>

definition validation_geo_to_pixel :: "real \<Rightarrow> real \<Rightarrow> geotransform \<Rightarrow> py_error + int \<times> int" where
  "validation_geo_to_pixel lng_v lat_v geotransform =
     (let origin_x = gt0 geotransform;
          origin_y = gt3 geotransform;
          pixel_width = gt1 geotransform;
          pixel_height = gt5 geotransform
      in if pixel_width = 0 \<or> pixel_height = 0 then Inl ZeroDivisionError
         else Inr (py_int ((lng_v - origin_x) / pixel_width),
                   py_int ((lat_v - origin_y) / pixel_height)))"

text \<open>The inner loop of \<open>validate_dem\<close> over the sampled coordinates of one contour.\<close>

fun validate_points ::
  "raster \<Rightarrow> real \<Rightarrow> (real \<times> real) list \<Rightarrow> real list \<Rightarrow> py_error + real list" where
  "validate_points ds contour_elev [] errors = Inr errors"
| "validate_points ds contour_elev ((lng_v, lat_v) # rest) errors =
     (case validation_geo_to_pixel lng_v lat_v (GeoTransform ds) of
        Inl e \<Rightarrow> Inl e
      | Inr (px, py) \<Rightarrow>
          if 0 \<le> px \<and> px < int (RasterXSize ds) \<and> 0 \<le> py \<and> py < int (RasterYSize ds)
          then (let dem_elevation = ReadAsArray ds (nat py) (nat px)
                in if dem_elevation \<noteq> - 9999
                   then validate_points ds contour_elev rest
                          (errors @ [\<bar>dem_elevation - contour_elev\<bar>])
                   else validate_points ds contour_elev rest errors)
          else validate_points ds contour_elev rest errors)"

text \<open>The outer loop: \<open>range(0, len(coordinates), sample_interval)\<close> are the multiples of the interval.\<close>

fun validate_contours :: "raster \<Rightarrow> contour list \<Rightarrow> real list \<Rightarrow> py_error + real list" where
  "validate_contours ds [] errors = Inr errors"
| "validate_contours ds (c # rest) errors =
     (if geometry_type c = ''LineString''
      then (let coordinates = geometry_coordinates c;
                sample_interval = max 1 (length coordinates div 20);
                sampled = map (\<lambda>i. coordinates ! i)
                            (filter (\<lambda>i. i mod sample_interval = 0) [0..<length coordinates])
            in case validate_points ds (contour_elevation c) sampled errors of
                 Inl e \<Rightarrow> Inl e
               | Inr errors' \<Rightarrow> validate_contours ds rest errors')
      else validate_contours ds rest errors)"

record validation_metrics =
  rmse :: real
  maxDeviation :: real
  contourMatchPercentage :: real
  sampleCount :: nat

definition validate_dem :: "raster \<Rightarrow> contour list \<Rightarrow> py_error + validation_metrics" where
  "validate_dem ds contours =
     (let tolerance = 0.5
      in case validate_contours ds contours [] of
           Inl e \<Rightarrow> Inl e
         | Inr errors \<Rightarrow>
             if length errors = 0
             then Inl (ValueError ''No valid elevation samples for validation'')
             else Inr \<lparr> rmse = sqrt (np_mean (map (\<lambda>e. e\<^sup>2) errors)),
                        maxDeviation = np_max errors,
                        contourMatchPercentage =
                          real (np_count (\<lambda>e. e \<le> tolerance) errors) / real (length errors) * 100,
                        sampleCount = length errors \<rparr>)"

subsection \<open>dem-generator: the handler\<close>

text \<open>
  The collaborators of the handler, as the outcomes of their calls in one run: the contours
  fetched from the database, the DEM that \<open>generate_dem\<close> writes, and the steps after
  validation (statistics, upload, the DEM record), which give the DEM's id and storage path.
  \<open>fmt_2f\<close> is Python's \<open>:.2f\<close> formatting of a float. The job-status table is written by
  \<open>update_job_status\<close>; the model keeps the last status written and takes the writes to succeed.
\<close>

record dem_world =
  fetch_contours_from_postgis :: "py_error + contour list"
  generate_dem :: "py_error + raster"
  after_validation :: "py_error + string \<times> string"
  fmt_2f :: "real \<Rightarrow> string"

datatype job_status = Processing nat | Completed string | Failed string

record response =
  statusCode :: nat
  body_error :: "string option"
  body_demId :: "string option"
  body_validation :: "validation_metrics option"

text \<open>The body of the handler's \<open>try\<close>.\<close>

definition run_job :: "dem_world \<Rightarrow> py_error + string \<times> string \<times> validation_metrics" where
  "run_job w =
     (case fetch_contours_from_postgis w of
        Inl e \<Rightarrow> Inl e
      | Inr contours \<Rightarrow>
          if length contours = 0 then Inl (ValueError ''No contour data found for project'')
          else
            (case generate_dem w of
               Inl e \<Rightarrow> Inl e
             | Inr dem \<Rightarrow>
                 (case validate_dem dem contours of
                    Inl e \<Rightarrow> Inl e
                  | Inr validation \<Rightarrow>
                      if rmse validation > 2.0
                      then Inl (ValueError (''DEM validation failed: RMSE ''
                                   @ fmt_2f w (rmse validation) @ ''m exceeds threshold''))
                      else
                        (case after_validation w of
                           Inl e \<Rightarrow> Inl e
                         | Inr (dem_id, s3_path) \<Rightarrow> Inr (dem_id, s3_path, validation)))))"

definition handler :: "dem_world \<Rightarrow> response \<times> job_status" where
  "handler w =
     (case run_job w of
        Inr (dem_id, s3_path, validation) \<Rightarrow>
          (\<lparr> statusCode = 200, body_error = None, body_demId = Some dem_id,
             body_validation = Some validation \<rparr>, Completed dem_id)
      | Inl e \<Rightarrow>
          (let error_message = exc_name e @ '': '' @ exc_str e
           in (\<lparr> statusCode = 500, body_error = Some error_message, body_demId = None,
                  body_validation = None \<rparr>, Failed error_message)))"

text \<open>The failure type a run surfaces: the class name that starts the error message.\<close>

definition failure_type :: "py_error + 'a \<Rightarrow> string option" where
  "failure_type r = (case r of Inl e \<Rightarrow> Some (exc_name e) | Inr v \<Rightarrow> None)"

subsection \<open>Example inputs\<close>

text \<open>Concrete inputs for the examples below.\<close>

definition example_gt :: geotransform where
  "example_gt = \<lparr> gt0 = 0, gt1 = 1, gt2 = 0, gt3 = 0, gt4 = 0, gt5 = - 1 \<rparr>"

definition example_aspect :: raster where
  "example_aspect =
     \<lparr> RasterXSize = 2, RasterYSize = 2, GeoTransform = example_gt,
       ReadAsArray = (\<lambda>y x. if y = 0 \<and> x = 1 then 10 else if y = 1 \<and> x = 0 then 350 else - 1),
       NoDataValue = Some (- 1) \<rparr>"

definition example_slope_nodata :: raster where
  "example_slope_nodata =
     \<lparr> RasterXSize = 2, RasterYSize = 2, GeoTransform = example_gt,
       ReadAsArray = (\<lambda>y x. if y = 0 \<and> x = 0 then - 9999 else if y = 0 then 1 else 10),
       NoDataValue = Some (- 9999) \<rparr>"

definition example_thresholds :: thresholds where
  "example_thresholds = \<lparr> flat = 5, moderate = 15, steep = 25 \<rparr>"

definition identity_filter :: "real \<Rightarrow> (nat \<Rightarrow> nat \<Rightarrow> real) \<Rightarrow> (nat \<Rightarrow> nat \<Rightarrow> real)" where
  "identity_filter sigma a = a"

definition example_gt_1m :: geotransform where
  "example_gt_1m = \<lparr> gt0 = 0, gt1 = 1 / 111320, gt2 = 0, gt3 = 5 / 111320, gt4 = 0,
                      gt5 = - (1 / 111320) \<rparr>"

definition example_uniform :: raster where
  "example_uniform =
     \<lparr> RasterXSize = 10, RasterYSize = 10, GeoTransform = example_gt_1m,
       ReadAsArray = (\<lambda>y x. 5), NoDataValue = Some (- 9999) \<rparr>"

definition example_ramp :: raster where
  "example_ramp =
     \<lparr> RasterXSize = 10, RasterYSize = 10, GeoTransform = example_gt_1m,
       ReadAsArray = (\<lambda>y x. 100 - real x), NoDataValue = Some (- 9999) \<rparr>"


definition example_profile :: "ProfilePoint list" where
  "example_profile =
     [\<lparr> distance = 0, elevation = 100, lat = 0, lng = 0, grade = 0 \<rparr>,
      \<lparr> distance = 250, elevation = 112.5, lat = 0, lng = 0, grade = 0 \<rparr>,
      \<lparr> distance = 500, elevation = 125, lat = 0, lng = 0, grade = 0 \<rparr>,
      \<lparr> distance = 750, elevation = 120, lat = 0, lng = 0, grade = 0 \<rparr>]"

definition example_fmt :: "real \<Rightarrow> string" where
  "example_fmt v = ''10.00''"

definition example_dem_1x1 :: raster where
  "example_dem_1x1 =
     \<lparr> RasterXSize = 1, RasterYSize = 1, GeoTransform = example_gt,
       ReadAsArray = (\<lambda>y x. 10), NoDataValue = Some (- 9999) \<rparr>"

definition example_contour :: contour where
  "example_contour =
     \<lparr> contour_elevation = 0, geometry_type = ''LineString'',
       geometry_coordinates = [(1 / 2, - (1 / 2))] \<rparr>"

definition example_world_rmse :: dem_world where
  "example_world_rmse =
     \<lparr> fetch_contours_from_postgis = Inr [example_contour],
       generate_dem = Inr example_dem_1x1,
       after_validation = Inr (''dem_1'', ''dems/p/dem_1.0m.tif''),
       fmt_2f = example_fmt \<rparr>"

definition example_world_empty :: dem_world where
  "example_world_empty =
     \<lparr> fetch_contours_from_postgis = Inr [],
       generate_dem = Inr example_dem_1x1,
       after_validation = Inr (''dem_1'', ''dems/p/dem_1.0m.tif''),
       fmt_2f = example_fmt \<rparr>"

section \<open>Theorems\<close>

subsection \<open>Steepness and direction classes\<close>

lemma classify_slope_cell_range: "classify_slope_cell t s \<in> {1, 2, 3, 4}"
  by (simp add: classify_slope_cell_def Let_def)

text \<open>
  Claim C1, as the code has it. For ascending thresholds \<open>flat < moderate < steep\<close> a slope
  \<open>s\<close> is Flat (1) iff \<open>s \<le> flat\<close>, Moderate (2) iff \<open>flat < s \<le> moderate\<close>, Steep (3)
  iff \<open>moderate < s \<le> steep\<close> and VerySteep (4) iff \<open>s > steep\<close>: the intervals are closed
  above, so a slope equal to a threshold belongs to the lower class.
\<close>

theorem classify_slope_closed_above:
  assumes "flat t < moderate t" and "moderate t < steep t"
  shows "(classify_slope_cell t s = 1 \<longleftrightarrow> s \<le> flat t)
       \<and> (classify_slope_cell t s = 2 \<longleftrightarrow> flat t < s \<and> s \<le> moderate t)
       \<and> (classify_slope_cell t s = 3 \<longleftrightarrow> moderate t < s \<and> s \<le> steep t)
       \<and> (classify_slope_cell t s = 4 \<longleftrightarrow> steep t < s)"
  using assms by (auto simp add: classify_slope_cell_def Let_def)

theorem classify_slope_closed_above_witness:
  "flat \<lparr>flat = 5, moderate = 15, steep = 25\<rparr> < moderate \<lparr>flat = 5, moderate = 15, steep = 25\<rparr>
   \<and> moderate \<lparr>flat = 5, moderate = 15, steep = 25\<rparr> < steep \<lparr>flat = 5, moderate = 15, steep = 25\<rparr>
   \<and> classify_slope_cell \<lparr>flat = 5, moderate = 15, steep = 25\<rparr> 15 = 2"
  using classify_slope_closed_above [of "\<lparr>flat = 5, moderate = 15, steep = 25\<rparr>" 15]
  by simp

text \<open>
  The claim as the spec states it fails: with thresholds 5, 15, 25 the slope 5 lies in the
  spec's Moderate interval \<open>flat \<le> s < moderate\<close>, and the code classifies it Flat.
\<close>

theorem classify_slope_half_open_counterexample:
  "flat \<lparr>flat = 5, moderate = 15, steep = 25\<rparr> \<le> 5
   \<and> 5 < moderate \<lparr>flat = 5, moderate = 15, steep = 25\<rparr>
   \<and> classify_slope_cell \<lparr>flat = 5, moderate = 15, steep = 25\<rparr> 5 \<noteq> 2
   \<and> classify_slope_cell \<lparr>flat = 5, moderate = 15, steep = 25\<rparr> 5 = 1"
  by (simp add: classify_slope_cell_def Let_def)

text \<open>
  Claim C8. Every angle in \<open>[0, 360)\<close> gets one of the eight directions 1 to 8, and gets
  direction N (1) iff it is at least 337.5 or below 22.5, and each of NE, E, SE, S, SW, W, NW
  (2 to 8) iff it lies in that direction's bin, 45 degrees wide and open above; every slope
  value gets one of the four steepness classes 1 to 4, whatever the thresholds.
\<close>

theorem classification_exhaustive_exclusive:
  "(0 \<le> a \<and> a < 360 \<longrightarrow>
      classify_aspect_cell a \<in> {1, 2, 3, 4, 5, 6, 7, 8}
    \<and> (classify_aspect_cell a = 1 \<longleftrightarrow> a \<ge> 337.5 \<or> a < 22.5)
    \<and> (classify_aspect_cell a = 2 \<longleftrightarrow> 22.5 \<le> a \<and> a < 67.5)
    \<and> (classify_aspect_cell a = 3 \<longleftrightarrow> 67.5 \<le> a \<and> a < 112.5)
    \<and> (classify_aspect_cell a = 4 \<longleftrightarrow> 112.5 \<le> a \<and> a < 157.5)
    \<and> (classify_aspect_cell a = 5 \<longleftrightarrow> 157.5 \<le> a \<and> a < 202.5)
    \<and> (classify_aspect_cell a = 6 \<longleftrightarrow> 202.5 \<le> a \<and> a < 247.5)
    \<and> (classify_aspect_cell a = 7 \<longleftrightarrow> 247.5 \<le> a \<and> a < 292.5)
    \<and> (classify_aspect_cell a = 8 \<longleftrightarrow> 292.5 \<le> a \<and> a < 337.5))
   \<and> classify_slope_cell t s \<in> {1, 2, 3, 4}"
  by (auto simp add: classify_aspect_cell_def classify_slope_cell_def Let_def)

theorem classification_exhaustive_exclusive_witness:
  "(0::real) \<le> 67.5 \<and> (67.5::real) < 360 \<and> classify_aspect_cell 67.5 = 3
   \<and> classify_aspect_cell 67.5 \<noteq> 2
   \<and> classify_slope_cell \<lparr>flat = 5, moderate = 15, steep = 25\<rparr> 30 \<in> {1, 2, 3, 4}"
  using classification_exhaustive_exclusive [of "67.5" "\<lparr>flat = 5, moderate = 15, steep = 25\<rparr>" 30]
  by simp

subsection \<open>Angles\<close>

lemma atan2_bounds: "- pi < atan2 y x \<and> atan2 y x \<le> pi"
proof -
  have b: "- (pi / 2) < arctan (y / x)" "arctan (y / x) < pi / 2"
    using arctan_bounded [of "y / x"] by simp_all
  have p: "0 < pi" by simp
  consider "0 < x" | "x < 0" "0 \<le> y" | "x < 0" "y < 0" | "x = 0" by linarith
  then show ?thesis
  proof cases
    case 1
    then show ?thesis using b p by (simp add: atan2_def)
  next
    case 2
    then have "y / x \<le> 0" by (simp add: divide_nonneg_neg)
    then have "arctan (y / x) \<le> 0" by simp
    then show ?thesis using 2 b p by (simp add: atan2_def)
  next
    case 3
    then have "0 < y / x" by (simp add: divide_neg_neg)
    then have "0 < arctan (y / x)" by simp
    then show ?thesis using 3 b p by (simp add: atan2_def)
  next
    case 4
    then have "atan2 y x = pi / 2 \<or> atan2 y x = - (pi / 2) \<or> atan2 y x = 0"
      by (simp add: atan2_def)
    then show ?thesis using p by (elim disjE) linarith+
  qed
qed

lemma degrees_bounds: "- pi < r \<Longrightarrow> r \<le> pi \<Longrightarrow> - 180 < degrees r \<and> degrees r \<le> 180"
proof -
  assume a: "- pi < r" "r \<le> pi"
  have p: "0 < pi" by simp
  have "- 180 * pi < r * 180" using a by simp
  then have 1: "- 180 < r * 180 / pi" using p by (simp add: pos_less_divide_eq)
  have "r * 180 \<le> 180 * pi" using a by simp
  then have 2: "r * 180 / pi \<le> 180" using p by (simp add: pos_divide_le_eq)
  show ?thesis using 1 2 by (simp add: degrees_def)
qed

subsection \<open>Statistics of the slope and aspect rasters\<close>

lemma upt_2: "[0..<2] = [0, Suc 0]"
  by (simp add: numeral_2_eq_2)

lemma flat_cells_example_aspect: "flat_cells example_aspect = [- 1, 10, 350, - 1]"
  by (simp add: flat_cells_def example_aspect_def upt_2)

lemma flat_cells_example_slope_nodata: "flat_cells example_slope_nodata = [- 9999, 1, 10, 10]"
  by (simp add: flat_cells_def example_slope_nodata_def upt_2)

lemma fold_count_flat:
  "c_flat (fst (fold count_step xs st)) = c_flat (fst st) + length (filter (\<lambda>a. a < 0) xs)"
  by (induction xs arbitrary: st) (simp_all add: count_step_def Let_def)

lemma fold_count_N:
  "c_N (fst (fold count_step xs st)) = c_N (fst st) + length (filter (\<lambda>a. classify_aspect_cell a = 1) xs)"
  by (induction xs arbitrary: st) (simp_all add: count_step_def classify_aspect_cell_def Let_def)

lemma fold_count_NE:
  "c_NE (fst (fold count_step xs st)) = c_NE (fst st) + length (filter (\<lambda>a. classify_aspect_cell a = 2) xs)"
  by (induction xs arbitrary: st) (simp_all add: count_step_def classify_aspect_cell_def Let_def)

lemma fold_count_E:
  "c_E (fst (fold count_step xs st)) = c_E (fst st) + length (filter (\<lambda>a. classify_aspect_cell a = 3) xs)"
  by (induction xs arbitrary: st) (simp_all add: count_step_def classify_aspect_cell_def Let_def)

lemma fold_count_SE:
  "c_SE (fst (fold count_step xs st)) = c_SE (fst st) + length (filter (\<lambda>a. classify_aspect_cell a = 4) xs)"
  by (induction xs arbitrary: st) (simp_all add: count_step_def classify_aspect_cell_def Let_def)

lemma fold_count_S:
  "c_S (fst (fold count_step xs st)) = c_S (fst st) + length (filter (\<lambda>a. classify_aspect_cell a = 5) xs)"
  by (induction xs arbitrary: st) (simp_all add: count_step_def classify_aspect_cell_def Let_def)

lemma fold_count_SW:
  "c_SW (fst (fold count_step xs st)) = c_SW (fst st) + length (filter (\<lambda>a. classify_aspect_cell a = 6) xs)"
  by (induction xs arbitrary: st) (simp_all add: count_step_def classify_aspect_cell_def Let_def)

lemma fold_count_W:
  "c_W (fst (fold count_step xs st)) = c_W (fst st) + length (filter (\<lambda>a. classify_aspect_cell a = 7) xs)"
  by (induction xs arbitrary: st) (simp_all add: count_step_def classify_aspect_cell_def Let_def)

lemma fold_count_NW:
  "c_NW (fst (fold count_step xs st)) = c_NW (fst st) + length (filter (\<lambda>a. classify_aspect_cell a = 8) xs)"
  by (induction xs arbitrary: st) (simp_all add: count_step_def classify_aspect_cell_def Let_def)

lemma fold_count_valid:
  "snd (fold count_step xs st) = snd st @ filter (\<lambda>a. \<not> a < 0) xs"
  by (induction xs arbitrary: st) (simp_all add: count_step_def Let_def)

lemmas fold_counts = fold_count_flat fold_count_N fold_count_NE fold_count_E fold_count_SE
  fold_count_S fold_count_SW fold_count_W fold_count_NW fold_count_valid

lemma length_flat_cells: "length (flat_cells r) = RasterXSize r * RasterYSize r"
  by (simp add: flat_cells_def length_concat comp_def sum_list_triv)

text \<open>
  Claim C2, as the code has it. The aspect percentages (flat and each of the eight directions)
  have the number of all cells of the raster, flat cells included, as their denominator. The
  slope percentages (flat, moderate, steep, very steep, unbuildable) count among the valid
  cells, those different from the no-data value \<open>-9999\<close>, and have the number of valid cells
  as their denominator.
\<close>

theorem percentages_denominators:
  "(RasterXSize a * RasterYSize a \<noteq> 0 \<longrightarrow>
      (\<exists>st. calculate_aspect_statistics a = Inr st
        \<and> aspect_stats.flatPercent st =
            real (length (filter (\<lambda>v. v < 0) (flat_cells a))) / real (length (flat_cells a)) * 100
        \<and> northPercent st =
            real (length (filter (\<lambda>v. classify_aspect_cell v = 1) (flat_cells a)))
              / real (length (flat_cells a)) * 100
        \<and> northeastPercent st =
            real (length (filter (\<lambda>v. classify_aspect_cell v = 2) (flat_cells a)))
              / real (length (flat_cells a)) * 100
        \<and> eastPercent st =
            real (length (filter (\<lambda>v. classify_aspect_cell v = 3) (flat_cells a)))
              / real (length (flat_cells a)) * 100
        \<and> southeastPercent st =
            real (length (filter (\<lambda>v. classify_aspect_cell v = 4) (flat_cells a)))
              / real (length (flat_cells a)) * 100
        \<and> southPercent st =
            real (length (filter (\<lambda>v. classify_aspect_cell v = 5) (flat_cells a)))
              / real (length (flat_cells a)) * 100
        \<and> southwestPercent st =
            real (length (filter (\<lambda>v. classify_aspect_cell v = 6) (flat_cells a)))
              / real (length (flat_cells a)) * 100
        \<and> westPercent st =
            real (length (filter (\<lambda>v. classify_aspect_cell v = 7) (flat_cells a)))
              / real (length (flat_cells a)) * 100
        \<and> northwestPercent st =
            real (length (filter (\<lambda>v. classify_aspect_cell v = 8) (flat_cells a)))
              / real (length (flat_cells a)) * 100))
   \<and> (filter (\<lambda>v. v \<noteq> - 9999) (flat_cells s) \<noteq> [] \<longrightarrow>
      (\<exists>ss. calculate_slope_statistics s t m = Inr ss
        \<and> slope_stats.flatPercent ss =
            real (length (filter (\<lambda>v. v \<le> flat t) (filter (\<lambda>v. v \<noteq> - 9999) (flat_cells s))))
              / real (length (filter (\<lambda>v. v \<noteq> - 9999) (flat_cells s))) * 100
        \<and> moderatePercent ss =
            real (length (filter (\<lambda>v. flat t < v \<and> v \<le> moderate t)
                            (filter (\<lambda>v. v \<noteq> - 9999) (flat_cells s))))
              / real (length (filter (\<lambda>v. v \<noteq> - 9999) (flat_cells s))) * 100
        \<and> steepPercent ss =
            real (length (filter (\<lambda>v. moderate t < v \<and> v \<le> steep t)
                            (filter (\<lambda>v. v \<noteq> - 9999) (flat_cells s))))
              / real (length (filter (\<lambda>v. v \<noteq> - 9999) (flat_cells s))) * 100
        \<and> verySteepPercent ss =
            real (length (filter (\<lambda>v. steep t < v) (filter (\<lambda>v. v \<noteq> - 9999) (flat_cells s))))
              / real (length (filter (\<lambda>v. v \<noteq> - 9999) (flat_cells s))) * 100
        \<and> unbuildablePercent ss =
            real (length (filter (\<lambda>v. m < v) (filter (\<lambda>v. v \<noteq> - 9999) (flat_cells s))))
              / real (length (filter (\<lambda>v. v \<noteq> - 9999) (flat_cells s))) * 100))"
proof (intro conjI impI)
  assume "RasterXSize a * RasterYSize a \<noteq> 0"
  then show "\<exists>st. calculate_aspect_statistics a = Inr st
        \<and> aspect_stats.flatPercent st =
            real (length (filter (\<lambda>v. v < 0) (flat_cells a))) / real (length (flat_cells a)) * 100
        \<and> northPercent st =
            real (length (filter (\<lambda>v. classify_aspect_cell v = 1) (flat_cells a)))
              / real (length (flat_cells a)) * 100
        \<and> northeastPercent st =
            real (length (filter (\<lambda>v. classify_aspect_cell v = 2) (flat_cells a)))
              / real (length (flat_cells a)) * 100
        \<and> eastPercent st =
            real (length (filter (\<lambda>v. classify_aspect_cell v = 3) (flat_cells a)))
              / real (length (flat_cells a)) * 100
        \<and> southeastPercent st =
            real (length (filter (\<lambda>v. classify_aspect_cell v = 4) (flat_cells a)))
              / real (length (flat_cells a)) * 100
        \<and> southPercent st =
            real (length (filter (\<lambda>v. classify_aspect_cell v = 5) (flat_cells a)))
              / real (length (flat_cells a)) * 100
        \<and> southwestPercent st =
            real (length (filter (\<lambda>v. classify_aspect_cell v = 6) (flat_cells a)))
              / real (length (flat_cells a)) * 100
        \<and> westPercent st =
            real (length (filter (\<lambda>v. classify_aspect_cell v = 7) (flat_cells a)))
              / real (length (flat_cells a)) * 100
        \<and> northwestPercent st =
            real (length (filter (\<lambda>v. classify_aspect_cell v = 8) (flat_cells a)))
              / real (length (flat_cells a)) * 100"
    by (simp add: calculate_aspect_statistics_def Let_def fold_counts counts_init_def
          length_flat_cells)
next
  assume "filter (\<lambda>v. v \<noteq> - 9999) (flat_cells s) \<noteq> []"
  then show "\<exists>ss. calculate_slope_statistics s t m = Inr ss
        \<and> slope_stats.flatPercent ss =
            real (length (filter (\<lambda>v. v \<le> flat t) (filter (\<lambda>v. v \<noteq> - 9999) (flat_cells s))))
              / real (length (filter (\<lambda>v. v \<noteq> - 9999) (flat_cells s))) * 100
        \<and> moderatePercent ss =
            real (length (filter (\<lambda>v. flat t < v \<and> v \<le> moderate t)
                            (filter (\<lambda>v. v \<noteq> - 9999) (flat_cells s))))
              / real (length (filter (\<lambda>v. v \<noteq> - 9999) (flat_cells s))) * 100
        \<and> steepPercent ss =
            real (length (filter (\<lambda>v. moderate t < v \<and> v \<le> steep t)
                            (filter (\<lambda>v. v \<noteq> - 9999) (flat_cells s))))
              / real (length (filter (\<lambda>v. v \<noteq> - 9999) (flat_cells s))) * 100
        \<and> verySteepPercent ss =
            real (length (filter (\<lambda>v. steep t < v) (filter (\<lambda>v. v \<noteq> - 9999) (flat_cells s))))
              / real (length (filter (\<lambda>v. v \<noteq> - 9999) (flat_cells s))) * 100
        \<and> unbuildablePercent ss =
            real (length (filter (\<lambda>v. m < v) (filter (\<lambda>v. v \<noteq> - 9999) (flat_cells s))))
              / real (length (filter (\<lambda>v. v \<noteq> - 9999) (flat_cells s))) * 100"
    unfolding calculate_slope_statistics_def Let_def np_count_def
    by (simp del: filter_filter)
qed

theorem percentages_denominators_witness:
  "RasterXSize example_aspect * RasterYSize example_aspect \<noteq> 0
   \<and> (\<exists>st. calculate_aspect_statistics example_aspect = Inr st \<and> aspect_stats.flatPercent st = 50)
   \<and> filter (\<lambda>v. v \<noteq> - 9999) (flat_cells example_slope_nodata) \<noteq> []
   \<and> (\<exists>ss. calculate_slope_statistics example_slope_nodata example_thresholds 15 = Inr ss
          \<and> moderatePercent ss = 2 / 3 * 100)"
proof -
  note T = percentages_denominators [of example_aspect example_slope_nodata example_thresholds 15]
  have h1: "RasterXSize example_aspect * RasterYSize example_aspect \<noteq> 0"
    by (simp add: example_aspect_def)
  have h2: "filter (\<lambda>v. v \<noteq> - 9999) (flat_cells example_slope_nodata) \<noteq> []"
    by (simp add: flat_cells_example_slope_nodata)
  from T [THEN conjunct1, rule_format, OF h1] obtain st where
    st: "calculate_aspect_statistics example_aspect = Inr st"
        "aspect_stats.flatPercent st =
           real (length (filter (\<lambda>v. v < 0) (flat_cells example_aspect)))
             / real (length (flat_cells example_aspect)) * 100"
    by blast
  from T [THEN conjunct2, rule_format, OF h2] obtain ss where
    ss: "calculate_slope_statistics example_slope_nodata example_thresholds 15 = Inr ss"
        "moderatePercent ss =
           real (length (filter (\<lambda>v. flat example_thresholds < v \<and> v \<le> moderate example_thresholds)
                           (filter (\<lambda>v. v \<noteq> - 9999) (flat_cells example_slope_nodata))))
             / real (length (filter (\<lambda>v. v \<noteq> - 9999) (flat_cells example_slope_nodata))) * 100"
    by blast
  have "aspect_stats.flatPercent st = 50"
    using st(2) by (simp add: flat_cells_example_aspect)
  moreover have "moderatePercent ss = 2 / 3 * 100"
    using ss(2) by (simp add: flat_cells_example_slope_nodata example_thresholds_def)
  ultimately show ?thesis using h1 h2 st(1) ss(1) by blast
qed

text \<open>
  The claim as the spec states it fails for the slope statistics: of four cells, one no-data
  and two moderate, the moderate percentage is two thirds of 100 and not two quarters.
\<close>

theorem slope_percent_denominator_counterexample:
  "map_sum id moderatePercent
     (calculate_slope_statistics example_slope_nodata example_thresholds 15) = Inr (2 / 3 * 100)
   \<and> RasterXSize example_slope_nodata * RasterYSize example_slope_nodata = 4
   \<and> (2 / 3 * 100 :: real) \<noteq> 2 / 4 * 100"
  by (simp add: calculate_slope_statistics_def flat_cells_example_slope_nodata
        example_thresholds_def np_count_def Let_def)
    (simp add: example_slope_nodata_def)

subsection \<open>The slope and aspect rasters\<close>







lemma calculate_slope_Inr:
  assumes "calculate_slope gf dem se k = Inr s"
  shows "ReadAsArray s =
      copy_col (RasterXSize dem - 1) (RasterXSize dem - 2) (copy_col 0 1
        (copy_row (RasterYSize dem - 1) (RasterYSize dem - 2) (copy_row 0 1
          (slope_interior (if se then gf (real_of_int k / 3) (ReadAsArray dem) else ReadAsArray dem)
             (slope_cell_size_x_m dem) (slope_cell_size_y_m dem)
             (RasterYSize dem) (RasterXSize dem)))))"
proof -
  from assms have "s = \<lparr> RasterXSize = RasterXSize dem, RasterYSize = RasterYSize dem,
      GeoTransform = GeoTransform dem,
      ReadAsArray = copy_col (RasterXSize dem - 1) (RasterXSize dem - 2) (copy_col 0 1
        (copy_row (RasterYSize dem - 1) (RasterYSize dem - 2) (copy_row 0 1
          (slope_interior (if se then gf (real_of_int k / 3) (ReadAsArray dem) else ReadAsArray dem)
             (slope_cell_size_x_m dem) (slope_cell_size_y_m dem)
             (RasterYSize dem) (RasterXSize dem))))),
      NoDataValue = Some (- 9999) \<rparr>"
    unfolding calculate_slope_def Let_def by (simp split: if_splits)
  then show ?thesis by simp
qed



lemma calculate_aspect_Inr:
  assumes "calculate_aspect dem sl thr = Inr a"
  shows "ReadAsArray a =
      copy_col_defined (RasterXSize dem - 1) (RasterXSize dem - 2) (copy_col_defined 0 1
        (copy_row_defined (RasterYSize dem - 1) (RasterYSize dem - 2) (copy_row_defined 0 1
          (aspect_interior (ReadAsArray dem) (ReadAsArray sl) thr (aspect_cell_size_x_m dem)
             (aspect_cell_size_y_m dem) (RasterYSize dem) (RasterXSize dem)))))"
proof -
  from assms have "a = \<lparr> RasterXSize = RasterXSize dem, RasterYSize = RasterYSize dem,
      GeoTransform = GeoTransform dem,
      ReadAsArray = copy_col_defined (RasterXSize dem - 1) (RasterXSize dem - 2) (copy_col_defined 0 1
        (copy_row_defined (RasterYSize dem - 1) (RasterYSize dem - 2) (copy_row_defined 0 1
          (aspect_interior (ReadAsArray dem) (ReadAsArray sl) thr (aspect_cell_size_x_m dem)
             (aspect_cell_size_y_m dem) (RasterYSize dem) (RasterXSize dem))))),
      NoDataValue = Some (- 1) \<rparr>"
    unfolding calculate_aspect_def Let_def by (simp split: if_splits)
  then show ?thesis by simp
qed




lemma example_cell_sizes:
  "slope_cell_size_x_m example_uniform = 1" "slope_cell_size_y_m example_uniform = 1"
  "slope_cell_size_x_m example_ramp = 1" "slope_cell_size_y_m example_ramp = 1"
  "aspect_cell_size_x_m example_ramp = 1" "aspect_cell_size_y_m example_ramp = 1"
  by (simp_all add: slope_cell_size_x_m_def slope_cell_size_y_m_def aspect_cell_size_x_m_def
        aspect_cell_size_y_m_def example_uniform_def example_ramp_def example_gt_1m_def
        radians_def Let_def)

lemma calculate_slope_returns:
  assumes "2 \<le> RasterYSize dem" "2 \<le> RasterXSize dem"
    and "RasterYSize dem < 3 \<or> RasterXSize dem < 3
         \<or> (slope_cell_size_x_m dem \<noteq> 0 \<and> slope_cell_size_y_m dem \<noteq> 0)"
  shows "\<exists>s. calculate_slope gf dem se k = Inr s
           \<and> RasterYSize s = RasterYSize dem \<and> RasterXSize s = RasterXSize dem"
  using assms unfolding calculate_slope_def Let_def by auto

lemma calculate_aspect_returns:
  assumes "2 \<le> RasterYSize dem" "2 \<le> RasterXSize dem"
    and "RasterYSize dem \<le> RasterYSize sl" "RasterXSize dem \<le> RasterXSize sl"
    and "(aspect_cell_size_x_m dem \<noteq> 0 \<and> aspect_cell_size_y_m dem \<noteq> 0)
         \<or> (\<forall>y x. ReadAsArray sl y x < thr)"
  shows "\<exists>a. calculate_aspect dem sl thr = Inr a"
proof -
  have "\<not> list_ex (\<lambda>y. list_ex (\<lambda>x. \<not> ReadAsArray sl y x < thr) [1..<RasterXSize dem - 1])
           [1..<RasterYSize dem - 1]" if "\<forall>y x. ReadAsArray sl y x < thr"
    using that by (simp add: list_ex_iff)
  then show ?thesis
    using assms unfolding calculate_aspect_def Let_def by auto
qed



lemma copy_interior:
  assumes "interior h w y x"
  shows "copy_col (w - 1) (w - 2) (copy_col 0 1 (copy_row (h - 1) (h - 2) (copy_row 0 1 f))) y x = f y x"
    and "copy_col_defined (w - 1) (w - 2) (copy_col_defined 0 1
           (copy_row_defined (h - 1) (h - 2) (copy_row_defined 0 1 f))) y x = f y x"
proof -
  have ne: "y \<noteq> 0" "y \<noteq> h - 1" "x \<noteq> 0" "x \<noteq> w - 1"
    using assms unfolding interior_def by arith+
  show "copy_col (w - 1) (w - 2) (copy_col 0 1 (copy_row (h - 1) (h - 2) (copy_row 0 1 f))) y x = f y x"
    using ne by (simp add: copy_col_def copy_row_def)
  show "copy_col_defined (w - 1) (w - 2) (copy_col_defined 0 1
           (copy_row_defined (h - 1) (h - 2) (copy_row_defined 0 1 f))) y x = f y x"
    using ne by (simp add: copy_col_defined_def copy_row_defined_def)
qed

lemma slope_interior_cell:
  assumes "calculate_slope gf dem False k = Inr s"
    and "interior (RasterYSize dem) (RasterXSize dem) y x"
  shows "ReadAsArray s y x =
     100 * sqrt (((ReadAsArray dem y (x + 1) - ReadAsArray dem y (x - 1)) / (2 * slope_cell_size_x_m dem))\<^sup>2
               + ((ReadAsArray dem (y + 1) x - ReadAsArray dem (y - 1) x) / (2 * slope_cell_size_y_m dem))\<^sup>2)"
  unfolding calculate_slope_Inr [OF assms(1)] copy_interior(1) [OF assms(2)]
  using assms(2) by (simp add: slope_interior_def central_difference_def Let_def power2_eq_square)

lemma aspect_of_gradient_eq:
  "aspect_of_gradient dz_dx dz_dy =
     (let v = 90 - degrees (atan2 dz_dy (- dz_dx)) in if v < 0 then v + 360 else v)"
proof -
  define d where "d = degrees (atan2 dz_dy (- dz_dx))"
  have "- 180 < d \<and> d \<le> 180"
    unfolding d_def using atan2_bounds degrees_bounds by blast
  then show ?thesis
    unfolding aspect_of_gradient_def Let_def d_def [symmetric] by (simp split: if_splits)
qed

lemma aspect_interior_cell:
  assumes "calculate_aspect dem sl thr = Inr a"
    and "interior (RasterYSize dem) (RasterXSize dem) y x"
    and "\<not> ReadAsArray sl y x < thr"
  shows "ReadAsArray a y x =
     (let dz_dx = (ReadAsArray dem y (x + 1) - ReadAsArray dem y (x - 1)) / (2 * aspect_cell_size_x_m dem);
          dz_dy = (ReadAsArray dem (y + 1) x - ReadAsArray dem (y - 1) x) / (2 * aspect_cell_size_y_m dem);
          v = 90 - degrees (atan2 dz_dy (- dz_dx))
      in if v < 0 then v + 360 else v)"
  unfolding calculate_aspect_Inr [OF assms(1)] copy_interior(2) [OF assms(2)]
  using assms(2,3)
  by (simp add: aspect_interior_def central_difference_def Let_def aspect_of_gradient_eq)






subsection \<open>The east-facing ramp\<close>

lemma atan2_0_1: "atan2 0 1 = 0"
  by (simp add: atan2_def)

lemma ramp_slope_aspect:
  assumes "2 \<le> RasterYSize r" "2 \<le> RasterXSize r"
    and cs: "slope_cell_size_x_m r = 1" "slope_cell_size_y_m r = 1"
            "aspect_cell_size_x_m r = 1" "aspect_cell_size_y_m r = 1"
    and ramp: "\<forall>y < RasterYSize r. \<forall>x < RasterXSize r. ReadAsArray r y x = base - real x"
    and "thr \<le> 100"
  shows "\<exists>s a. calculate_slope gf r False k = Inr s \<and> calculate_aspect r s thr = Inr a
           \<and> (\<forall>y x. interior (RasterYSize r) (RasterXSize r) y x \<longrightarrow>
                 ReadAsArray s y x = 100 \<and> ReadAsArray a y x = 90)"
proof -
  obtain s where s: "calculate_slope gf r False k = Inr s"
      "RasterYSize s = RasterYSize r" "RasterXSize s = RasterXSize r"
    using calculate_slope_returns [of r gf False k] assms(1,2) cs by auto
  obtain a where a: "calculate_aspect r s thr = Inr a"
    using calculate_aspect_returns [of r s thr] assms(1,2) s(2,3) cs by auto
  have "ReadAsArray s y x = 100 \<and> ReadAsArray a y x = 90"
    if i: "interior (RasterYSize r) (RasterXSize r) y x" for y x
  proof -
    from i have b: "1 \<le> x" "x + 1 < RasterXSize r" "1 \<le> y" "y + 1 < RasterYSize r"
      by (simp_all add: interior_def)
    then have e: "ReadAsArray r y (x + 1) = base - real (x + 1)"
        "ReadAsArray r y (x - 1) = base - real (x - 1)"
        "ReadAsArray r (y + 1) x = base - real x" "ReadAsArray r (y - 1) x = base - real x"
      using ramp by auto
    have d: "ReadAsArray r y (x + 1) - ReadAsArray r y (x - 1) = - 2"
      using b(1) unfolding e by (simp add: of_nat_diff)
    have d2: "ReadAsArray r (y + 1) x - ReadAsArray r (y - 1) x = 0"
      unfolding e by simp
    have sl: "ReadAsArray s y x = 100"
      unfolding slope_interior_cell [OF s(1) i] d d2 cs by simp
    then have nf: "\<not> ReadAsArray s y x < thr" using \<open>thr \<le> 100\<close> by simp
    have "ReadAsArray a y x = 90"
      unfolding aspect_interior_cell [OF a i nf] d d2 cs
      by (simp add: atan2_0_1 degrees_def)
    with sl show ?thesis by simp
  qed
  with s(1) a show ?thesis by blast
qed

text \<open>
  Claim C6. At an interior cell the slope is \<open>100 * sqrt(dx\<^sup>2 + dy\<^sup>2)\<close> and the aspect of a
  cell that is not flat is \<open>90 - degrees(atan2(dy, -dx))\<close>, plus 360 when negative, where
  \<open>dx\<close> and \<open>dy\<close> are the central differences divided by twice the cell size in meters.
  On a ramp that drops 1 m per cell from west to east and is constant from north to south,
  with 1 m cells and without smoothing, every interior cell has slope 100 and, for a flat
  threshold of at most 100, aspect 90.
\<close>

theorem east_ramp_slope_aspect:
  "(calculate_slope gf dem False k = Inr s \<and> interior (RasterYSize dem) (RasterXSize dem) y x \<longrightarrow>
      ReadAsArray s y x =
        100 * sqrt (((ReadAsArray dem y (x + 1) - ReadAsArray dem y (x - 1))
                       / (2 * slope_cell_size_x_m dem))\<^sup>2
                  + ((ReadAsArray dem (y + 1) x - ReadAsArray dem (y - 1) x)
                       / (2 * slope_cell_size_y_m dem))\<^sup>2))
   \<and> (calculate_aspect dem sl thr = Inr a \<and> interior (RasterYSize dem) (RasterXSize dem) y x
        \<and> \<not> ReadAsArray sl y x < thr \<longrightarrow>
      ReadAsArray a y x =
        (let dz_dx = (ReadAsArray dem y (x + 1) - ReadAsArray dem y (x - 1))
                       / (2 * aspect_cell_size_x_m dem);
             dz_dy = (ReadAsArray dem (y + 1) x - ReadAsArray dem (y - 1) x)
                       / (2 * aspect_cell_size_y_m dem);
             v = 90 - degrees (atan2 dz_dy (- dz_dx))
         in if v < 0 then v + 360 else v))
   \<and> (2 \<le> RasterYSize r \<and> 2 \<le> RasterXSize r
        \<and> slope_cell_size_x_m r = 1 \<and> slope_cell_size_y_m r = 1
        \<and> aspect_cell_size_x_m r = 1 \<and> aspect_cell_size_y_m r = 1
        \<and> (\<forall>y < RasterYSize r. \<forall>x < RasterXSize r. ReadAsArray r y x = base - real x)
        \<and> thr \<le> 100 \<longrightarrow>
      (\<exists>s' a'. calculate_slope gf r False k = Inr s' \<and> calculate_aspect r s' thr = Inr a'
         \<and> (\<forall>y x. interior (RasterYSize r) (RasterXSize r) y x \<longrightarrow>
               ReadAsArray s' y x = 100 \<and> ReadAsArray a' y x = 90)))"
proof (intro conjI impI)
  assume "calculate_slope gf dem False k = Inr s \<and> interior (RasterYSize dem) (RasterXSize dem) y x"
  then show "ReadAsArray s y x =
        100 * sqrt (((ReadAsArray dem y (x + 1) - ReadAsArray dem y (x - 1))
                       / (2 * slope_cell_size_x_m dem))\<^sup>2
                  + ((ReadAsArray dem (y + 1) x - ReadAsArray dem (y - 1) x)
                       / (2 * slope_cell_size_y_m dem))\<^sup>2)"
    using slope_interior_cell by blast
next
  assume "calculate_aspect dem sl thr = Inr a \<and> interior (RasterYSize dem) (RasterXSize dem) y x
        \<and> \<not> ReadAsArray sl y x < thr"
  then show "ReadAsArray a y x =
        (let dz_dx = (ReadAsArray dem y (x + 1) - ReadAsArray dem y (x - 1))
                       / (2 * aspect_cell_size_x_m dem);
             dz_dy = (ReadAsArray dem (y + 1) x - ReadAsArray dem (y - 1) x)
                       / (2 * aspect_cell_size_y_m dem);
             v = 90 - degrees (atan2 dz_dy (- dz_dx))
         in if v < 0 then v + 360 else v)"
    using aspect_interior_cell by blast
next
  assume "2 \<le> RasterYSize r \<and> 2 \<le> RasterXSize r
        \<and> slope_cell_size_x_m r = 1 \<and> slope_cell_size_y_m r = 1
        \<and> aspect_cell_size_x_m r = 1 \<and> aspect_cell_size_y_m r = 1
        \<and> (\<forall>y < RasterYSize r. \<forall>x < RasterXSize r. ReadAsArray r y x = base - real x)
        \<and> thr \<le> 100"
  then show "\<exists>s' a'. calculate_slope gf r False k = Inr s' \<and> calculate_aspect r s' thr = Inr a'
         \<and> (\<forall>y x. interior (RasterYSize r) (RasterXSize r) y x \<longrightarrow>
               ReadAsArray s' y x = 100 \<and> ReadAsArray a' y x = 90)"
    using ramp_slope_aspect [of r base thr gf k] by blast
qed

theorem east_ramp_slope_aspect_witness:
  "2 \<le> RasterYSize example_ramp \<and> 2 \<le> RasterXSize example_ramp
   \<and> slope_cell_size_x_m example_ramp = 1 \<and> slope_cell_size_y_m example_ramp = 1
   \<and> aspect_cell_size_x_m example_ramp = 1 \<and> aspect_cell_size_y_m example_ramp = 1
   \<and> ReadAsArray example_ramp 4 6 = 94 \<and> ReadAsArray example_ramp 4 8 = 92
   \<and> (2::real) \<le> 100
   \<and> interior (RasterYSize example_ramp) (RasterXSize example_ramp) 4 7
   \<and> (\<exists>s a. calculate_slope identity_filter example_ramp False 3 = Inr s
         \<and> calculate_aspect example_ramp s 2 = Inr a
         \<and> ReadAsArray s 4 7 = 100 \<and> ReadAsArray a 4 7 = 90)"
proof -
  have h: "2 \<le> RasterYSize example_ramp \<and> 2 \<le> RasterXSize example_ramp
      \<and> slope_cell_size_x_m example_ramp = 1 \<and> slope_cell_size_y_m example_ramp = 1
      \<and> aspect_cell_size_x_m example_ramp = 1 \<and> aspect_cell_size_y_m example_ramp = 1
      \<and> (\<forall>y < RasterYSize example_ramp. \<forall>x < RasterXSize example_ramp.
            ReadAsArray example_ramp y x = 100 - real x)
      \<and> (2::real) \<le> 100"
    by (simp add: example_cell_sizes) (simp add: example_ramp_def)
  have i: "interior (RasterYSize example_ramp) (RasterXSize example_ramp) 4 7"
    by (simp add: interior_def example_ramp_def)
  from east_ramp_slope_aspect [where gf = identity_filter and k = 3 and r = example_ramp
        and base = 100 and thr = 2, THEN conjunct2, THEN conjunct2, rule_format, OF h]
  obtain s a where sa: "calculate_slope identity_filter example_ramp False 3 = Inr s"
      "calculate_aspect example_ramp s 2 = Inr a"
      "\<forall>y x. interior (RasterYSize example_ramp) (RasterXSize example_ramp) y x \<longrightarrow>
               ReadAsArray s y x = 100 \<and> ReadAsArray a y x = 90"
    by blast
  have "ReadAsArray s 4 7 = 100 \<and> ReadAsArray a 4 7 = 90"
    using sa(3) i by blast
  moreover have "ReadAsArray example_ramp 4 6 = 94 \<and> ReadAsArray example_ramp 4 8 = 92"
    by (simp add: example_ramp_def)
  ultimately show ?thesis using h i sa(1,2) by blast
qed

subsection \<open>Grades and statistics of a profile\<close>

lemma grade_step_length: "length (grade_step i ps) = length ps"
  by (simp add: grade_step_def Let_def)

lemma grade_step_nth_other: "j \<noteq> i \<Longrightarrow> grade_step i ps ! j = ps ! j"
  by (simp add: grade_step_def Let_def)

lemma grade_step_nth_same:
  "i < length ps \<Longrightarrow>
   grade_step i ps ! i =
     (ps ! i)\<lparr>grade :=
        (if distance (ps ! i) - distance (ps ! (i - 1)) > 0
         then (elevation (ps ! i) - elevation (ps ! (i - 1)))
                / (distance (ps ! i) - distance (ps ! (i - 1))) * 100
         else 0)\<rparr>"
  by (simp add: grade_step_def Let_def)

lemma fold_grade_step:
  assumes "k \<le> length pts"
  shows "length (fold grade_step [1..<k] pts) = length pts
    \<and> (\<forall>i. i = 0 \<or> k \<le> i \<longrightarrow> fold grade_step [1..<k] pts ! i = pts ! i)
    \<and> (\<forall>i. 1 \<le> i \<and> i < k \<longrightarrow>
          fold grade_step [1..<k] pts ! i =
            (pts ! i)\<lparr>grade :=
               (if distance (pts ! i) - distance (pts ! (i - 1)) > 0
                then (elevation (pts ! i) - elevation (pts ! (i - 1)))
                       / (distance (pts ! i) - distance (pts ! (i - 1))) * 100
                else 0)\<rparr>)"
  using assms
proof (induction k)
  case 0
  then show ?case by simp
next
  case (Suc k)
  show ?case
  proof (cases "k = 0")
    case True
    then show ?thesis by simp
  next
    case False
    define ps where "ps = fold grade_step [1..<k] pts"
    from Suc have k: "k < length pts" by simp
    from Suc.IH k have len: "length ps = length pts"
      and same: "\<And>i. i = 0 \<or> k \<le> i \<Longrightarrow> ps ! i = pts ! i"
      and prior: "\<And>i. 1 \<le> i \<and> i < k \<Longrightarrow> ps ! i =
            (pts ! i)\<lparr>grade :=
               (if distance (pts ! i) - distance (pts ! (i - 1)) > 0
                then (elevation (pts ! i) - elevation (pts ! (i - 1)))
                       / (distance (pts ! i) - distance (pts ! (i - 1))) * 100
                else 0)\<rparr>"
      unfolding ps_def by auto
    have unfold: "fold grade_step [1..<Suc k] pts = grade_step k ps"
      using False by (simp add: ps_def)
    have prev_de: "distance (ps ! (k - 1)) = distance (pts ! (k - 1))
        \<and> elevation (ps ! (k - 1)) = elevation (pts ! (k - 1))"
    proof (cases "k - 1 = 0")
      case True
      then show ?thesis using same [of "k - 1"] by simp
    next
      case False
      then have "1 \<le> k - 1 \<and> k - 1 < k" using \<open>k \<noteq> 0\<close> by arith
      from prior [OF this] show ?thesis by simp
    qed
    have cur: "ps ! k = pts ! k" using same [of k] by simp
    have at_k: "grade_step k ps ! k =
            (pts ! k)\<lparr>grade :=
               (if distance (pts ! k) - distance (pts ! (k - 1)) > 0
                then (elevation (pts ! k) - elevation (pts ! (k - 1)))
                       / (distance (pts ! k) - distance (pts ! (k - 1))) * 100
                else 0)\<rparr>"
    proof -
      have kl: "k < length ps" using k len by simp
      show ?thesis
        unfolding grade_step_nth_same [OF kl] cur using prev_de by simp
    qed
    show ?thesis
      unfolding unfold
    proof (intro conjI allI impI)
      show "length (grade_step k ps) = length pts" by (simp add: grade_step_length len)
    next
      fix i assume "i = 0 \<or> Suc k \<le> i"
      then have "i \<noteq> k" "i = 0 \<or> k \<le> i" using False by auto
      then show "grade_step k ps ! i = pts ! i"
        by (simp add: grade_step_nth_other same)
    next
      fix i assume i: "1 \<le> i \<and> i < Suc k"
      show "grade_step k ps ! i =
            (pts ! i)\<lparr>grade :=
               (if distance (pts ! i) - distance (pts ! (i - 1)) > 0
                then (elevation (pts ! i) - elevation (pts ! (i - 1)))
                       / (distance (pts ! i) - distance (pts ! (i - 1))) * 100
                else 0)\<rparr>"
      proof (cases "i = k")
        case True
        then show ?thesis using at_k by simp
      next
        case False
        then have "1 \<le> i \<and> i < k" using i by arith
        then show ?thesis using False by (simp add: grade_step_nth_other prior)
      qed
    qed
  qed
qed

text \<open>
  Claim C7. On a non-empty sequence of profile points \<open>calculate_grades\<close> returns a sequence
  of the same length with the same distances and elevations; the first point's grade is 0, and
  the grade of every later point is 100 times its elevation minus the previous point's
  elevation, divided by its distance minus the previous point's distance, whenever that
  horizontal distance is positive.
\<close>

theorem calculate_grades_correct:
  assumes "pts \<noteq> []"
  shows "\<exists>ps. calculate_grades pts = Inr ps \<and> length ps = length pts
    \<and> grade (ps ! 0) = 0
    \<and> (\<forall>i. 0 < i \<and> i < length pts \<and> 0 < distance (pts ! i) - distance (pts ! (i - 1)) \<longrightarrow>
          grade (ps ! i) =
            100 * (elevation (pts ! i) - elevation (pts ! (i - 1)))
              / (distance (pts ! i) - distance (pts ! (i - 1))))
    \<and> map distance ps = map distance pts \<and> map elevation ps = map elevation pts"
proof -
  define qs where "qs = fold grade_step [1..<length pts] pts"
  have inv: "length qs = length pts"
      "\<And>i. i = 0 \<or> length pts \<le> i \<Longrightarrow> qs ! i = pts ! i"
      "\<And>i. 1 \<le> i \<and> i < length pts \<Longrightarrow> qs ! i =
            (pts ! i)\<lparr>grade :=
               (if distance (pts ! i) - distance (pts ! (i - 1)) > 0
                then (elevation (pts ! i) - elevation (pts ! (i - 1)))
                       / (distance (pts ! i) - distance (pts ! (i - 1))) * 100
                else 0)\<rparr>"
    using fold_grade_step [of "length pts" pts] unfolding qs_def by auto
  define ps where "ps = qs[0 := (qs ! 0)\<lparr>grade := 0\<rparr>]"
  have ne: "qs \<noteq> []" using inv(1) assms by auto
  have res: "calculate_grades pts = Inr ps"
    unfolding calculate_grades_def Let_def qs_def [symmetric] ps_def using ne by simp
  have len: "length ps = length pts" by (simp add: ps_def inv(1))
  have pos: "0 < length qs" using ne by simp
  have g0: "grade (ps ! 0) = 0" using pos by (simp add: ps_def)
  have nth: "ps ! i = qs ! i" if "0 < i" for i using that by (simp add: ps_def)
  have gi: "grade (ps ! i) =
            100 * (elevation (pts ! i) - elevation (pts ! (i - 1)))
              / (distance (pts ! i) - distance (pts ! (i - 1)))"
    if "0 < i \<and> i < length pts \<and> 0 < distance (pts ! i) - distance (pts ! (i - 1))" for i
  proof -
    from that have "1 \<le> i \<and> i < length pts" by arith
    from inv(3) [OF this] that show ?thesis by (simp add: nth)
  qed
  have de: "distance (ps ! i) = distance (pts ! i) \<and> elevation (ps ! i) = elevation (pts ! i)"
    if "i < length pts" for i
  proof (cases "i = 0")
    case True
    then show ?thesis using pos inv(2) [of 0] by (simp add: ps_def)
  next
    case False
    then have "1 \<le> i \<and> i < length pts" using that by arith
    from inv(3) [OF this] False show ?thesis by (simp add: nth)
  qed
  have md: "map distance ps = map distance pts"
    by (rule nth_equalityI) (simp_all add: len de)
  have me: "map elevation ps = map elevation pts"
    by (rule nth_equalityI) (simp_all add: len de)
  show ?thesis using res len g0 gi md me by blast
qed

theorem calculate_grades_correct_witness:
  "example_profile \<noteq> []
   \<and> (0::real) < distance (example_profile ! 1) - distance (example_profile ! (1 - 1))
   \<and> (\<exists>ps. calculate_grades example_profile = Inr ps \<and> length ps = 4
         \<and> grade (ps ! 0) = 0 \<and> grade (ps ! 1) = 5)"
proof -
  have ne: "example_profile \<noteq> []" by (simp add: example_profile_def)
  have d: "(0::real) < distance (example_profile ! 1) - distance (example_profile ! (1 - 1))"
    by (simp add: example_profile_def)
  from calculate_grades_correct [OF ne] obtain ps where ps:
    "calculate_grades example_profile = Inr ps" "length ps = length example_profile"
    "grade (ps ! 0) = 0"
    "\<forall>i. 0 < i \<and> i < length example_profile
         \<and> 0 < distance (example_profile ! i) - distance (example_profile ! (i - 1)) \<longrightarrow>
          grade (ps ! i) =
            100 * (elevation (example_profile ! i) - elevation (example_profile ! (i - 1)))
              / (distance (example_profile ! i) - distance (example_profile ! (i - 1)))"
    by blast
  have l: "length example_profile = 4" by (simp add: example_profile_def)
  have "grade (ps ! 1) =
            100 * (elevation (example_profile ! 1) - elevation (example_profile ! (1 - 1)))
              / (distance (example_profile ! 1) - distance (example_profile ! (1 - 1)))"
    using ps(4) d l by simp
  then have "grade (ps ! 1) = 5" by (simp add: example_profile_def)
  then show ?thesis using ne d ps(1,2,3) l by auto
qed

lemma profile_step_gain:
  "elevation_gain (profile_step pts thr i acc) =
     elevation_gain acc
       + (if elevation (pts ! i) - elevation (pts ! (i - 1)) > 0
          then elevation (pts ! i) - elevation (pts ! (i - 1)) else 0)"
  by (simp add: profile_step_def Let_def)

lemma profile_step_loss:
  "elevation_loss (profile_step pts thr i acc) =
     elevation_loss acc
       + (if elevation (pts ! i) - elevation (pts ! (i - 1)) > 0
          then 0 else \<bar>elevation (pts ! i) - elevation (pts ! (i - 1))\<bar>)"
  by (simp add: profile_step_def Let_def)

lemma fold_accumulate:
  fixes sel :: "'s \<Rightarrow> real"
  assumes "\<And>i acc. sel (step i acc) = sel acc + g i"
  shows "sel (fold step [1..<k] acc) = sel acc + (\<Sum>i = 1..<k. g i)"
proof (induction k)
  case 0
  then show ?case by simp
next
  case (Suc k)
  show ?case
  proof (cases "k = 0")
    case True
    then show ?thesis by simp
  next
    case False
    then show ?thesis using Suc.IH by (simp add: assms)
  qed
qed

lemma telescope:
  fixes e :: "nat \<Rightarrow> real"
  assumes "1 \<le> k"
  shows "(\<Sum>i = 1..<k. e i - e (i - 1)) = e (k - 1) - e 0"
  using assms
proof (induction k)
  case 0
  then show ?case by simp
next
  case (Suc k)
  show ?case
  proof (cases "k = 0")
    case True
    then show ?thesis by simp
  next
    case False
    then have "1 \<le> k" by simp
    from Suc.IH [OF this] show ?thesis
      using False by simp
  qed
qed

text \<open>
  Claim C10. On a non-empty sequence of profile points \<open>calculate_profile_statistics\<close>
  returns statistics with \<open>elevationGain - elevationLoss = netElevationChange\<close>, the net
  change being the last elevation minus the first; the gain is the sum of the positive
  consecutive elevation deltas and the loss the sum of the absolute values of the others.
\<close>

theorem profile_gain_loss_net:
  assumes "pts \<noteq> []"
  shows "\<exists>st. calculate_profile_statistics pts thr = Inr st
    \<and> elevationGain st - elevationLoss st = netElevationChange st
    \<and> netElevationChange st = elevation (last pts) - elevation (hd pts)
    \<and> elevationGain st =
        (\<Sum>i = 1..<length pts. if elevation (pts ! i) - elevation (pts ! (i - 1)) > 0
                                then elevation (pts ! i) - elevation (pts ! (i - 1)) else 0)
    \<and> elevationLoss st =
        (\<Sum>i = 1..<length pts. if elevation (pts ! i) - elevation (pts ! (i - 1)) > 0
                                then 0 else \<bar>elevation (pts ! i) - elevation (pts ! (i - 1))\<bar>)"
proof -
  define d where "d = (\<lambda>i. elevation (pts ! i) - elevation (pts ! (i - 1)))"
  define acc where
    "acc = fold (profile_step pts thr) [1..<length pts] profile_acc_init"
  have G: "elevation_gain acc = (\<Sum>i = 1..<length pts. if d i > 0 then d i else 0)"
    unfolding acc_def
    using fold_accumulate [of elevation_gain "profile_step pts thr"
            "\<lambda>i. if d i > 0 then d i else 0" "length pts" profile_acc_init]
    by (simp add: profile_step_gain d_def profile_acc_init_def)
  have L: "elevation_loss acc = (\<Sum>i = 1..<length pts. if d i > 0 then 0 else \<bar>d i\<bar>)"
    unfolding acc_def
    using fold_accumulate [of elevation_loss "profile_step pts thr"
            "\<lambda>i. if d i > 0 then 0 else \<bar>d i\<bar>" "length pts" profile_acc_init]
    by (simp add: profile_step_loss d_def profile_acc_init_def)
  have k: "1 \<le> length pts" using assms by (cases pts) simp_all
  have "(\<Sum>i = 1..<length pts. if d i > 0 then d i else 0)
        - (\<Sum>i = 1..<length pts. if d i > 0 then 0 else \<bar>d i\<bar>)
        = (\<Sum>i = 1..<length pts. d i)"
    unfolding sum_subtractf [symmetric] by (rule sum.cong) auto
  also have "\<dots> = elevation (pts ! (length pts - 1)) - elevation (pts ! 0)"
    unfolding d_def using telescope [of "length pts" "\<lambda>i. elevation (pts ! i)", OF k] by simp
  also have "\<dots> = elevation (last pts) - elevation (hd pts)"
    using assms by (simp add: last_conv_nth hd_conv_nth)
  finally have tel: "elevation_gain acc - elevation_loss acc
      = elevation (last pts) - elevation (hd pts)"
    unfolding G L .
  obtain st where st: "calculate_profile_statistics pts thr = Inr st"
      "elevationGain st = elevation_gain acc" "elevationLoss st = elevation_loss acc"
      "netElevationChange st = elevation (last pts) - elevation (hd pts)"
    unfolding calculate_profile_statistics_def Let_def acc_def [symmetric]
    using assms by simp
  have 1: "elevationGain st - elevationLoss st = netElevationChange st"
    unfolding st(2,3,4) by (rule tel)
  have 2: "elevationGain st =
        (\<Sum>i = 1..<length pts. if elevation (pts ! i) - elevation (pts ! (i - 1)) > 0
                                then elevation (pts ! i) - elevation (pts ! (i - 1)) else 0)"
    unfolding st(2) G d_def ..
  have 3: "elevationLoss st =
        (\<Sum>i = 1..<length pts. if elevation (pts ! i) - elevation (pts ! (i - 1)) > 0
                                then 0 else \<bar>elevation (pts ! i) - elevation (pts ! (i - 1))\<bar>)"
    unfolding st(3) L d_def ..
  show ?thesis using st(1) 1 st(4) 2 3 by blast
qed

theorem profile_gain_loss_net_witness:
  "example_profile \<noteq> []
   \<and> (\<exists>st. calculate_profile_statistics example_profile 8 = Inr st
         \<and> elevationGain st - elevationLoss st = 20 \<and> netElevationChange st = 20)"
proof -
  have ne: "example_profile \<noteq> []" by (simp add: example_profile_def)
  from profile_gain_loss_net [OF ne, of 8] obtain st where st:
    "calculate_profile_statistics example_profile 8 = Inr st"
    "elevationGain st - elevationLoss st = netElevationChange st"
    "netElevationChange st = elevation (last example_profile) - elevation (hd example_profile)"
    by blast
  have "netElevationChange st = 20" using st(3) by (simp add: example_profile_def)
  then show ?thesis using ne st(1,2) by auto
qed

subsection \<open>The DEM-generation job and its quality gate\<close>

lemma sqrt_100: "sqrt 100 = 10"
  using real_sqrt_abs [of 10] by simp

lemma example_validate:
  "validate_dem example_dem_1x1 [example_contour] =
     Inr \<lparr> rmse = 10, maxDeviation = 10, contourMatchPercentage = 0, sampleCount = 1 \<rparr>"
  by (simp add: validate_dem_def example_contour_def example_dem_1x1_def example_gt_def
        validation_geo_to_pixel_def py_int_def np_mean_def np_max_def np_count_def Let_def
        sqrt_100)

text \<open>
  Claim C3, as the code has it. Whenever validation returns an RMSE above 2.0 the job fails:
  the handler answers with status 500 and marks the job failed, with the message
  \<open>ValueError: DEM validation failed: RMSE ... exceeds threshold\<close>. An empty contour set
  fails the job with \<open>ValueError: No contour data found for project\<close>: both failures are
  surfaced as the same type, \<open>ValueError\<close>, and differ in their message only. An RMSE of at
  most 2.0 lets the job go on, and it completes when the later steps succeed.
\<close>

theorem rmse_gate_fails_job:
  "(fetch_contours_from_postgis w = Inr contours \<and> contours \<noteq> [] \<and> generate_dem w = Inr dem
      \<and> validate_dem dem contours = Inr v \<and> rmse v > 2 \<longrightarrow>
        run_job w = Inl (ValueError (''DEM validation failed: RMSE '' @ fmt_2f w (rmse v)
                                      @ ''m exceeds threshold''))
      \<and> statusCode (fst (handler w)) = 500
      \<and> snd (handler w) = Failed (''ValueError: DEM validation failed: RMSE '' @ fmt_2f w (rmse v)
                                      @ ''m exceeds threshold'')
      \<and> failure_type (run_job w) = Some ''ValueError'')
   \<and> (fetch_contours_from_postgis w = Inr [] \<longrightarrow>
        run_job w = Inl (ValueError ''No contour data found for project'')
      \<and> statusCode (fst (handler w)) = 500
      \<and> snd (handler w) = Failed ''ValueError: No contour data found for project''
      \<and> failure_type (run_job w) = Some ''ValueError'')
   \<and> (fetch_contours_from_postgis w = Inr contours \<and> contours \<noteq> [] \<and> generate_dem w = Inr dem
      \<and> validate_dem dem contours = Inr v \<and> rmse v \<le> 2
      \<and> after_validation w = Inr (dem_id, s3_path) \<longrightarrow>
        statusCode (fst (handler w)) = 200 \<and> snd (handler w) = Completed dem_id)"
  by (auto simp add: run_job_def handler_def failure_type_def Let_def)

theorem rmse_gate_fails_job_witness:
  "fetch_contours_from_postgis example_world_rmse = Inr [example_contour]
   \<and> generate_dem example_world_rmse = Inr example_dem_1x1
   \<and> statusCode (fst (handler example_world_rmse)) = 500
   \<and> snd (handler example_world_rmse)
       = Failed ''ValueError: DEM validation failed: RMSE 10.00m exceeds threshold''
   \<and> fetch_contours_from_postgis example_world_empty = Inr []
   \<and> snd (handler example_world_empty) = Failed ''ValueError: No contour data found for project''"
proof -
  have w: "fetch_contours_from_postgis example_world_rmse = Inr [example_contour]"
      "generate_dem example_world_rmse = Inr example_dem_1x1"
      "fmt_2f example_world_rmse = example_fmt"
      "fetch_contours_from_postgis example_world_empty = Inr []"
    by (simp_all add: example_world_rmse_def example_world_empty_def)
  have h: "fetch_contours_from_postgis example_world_rmse = Inr [example_contour]
      \<and> [example_contour] \<noteq> [] \<and> generate_dem example_world_rmse = Inr example_dem_1x1
      \<and> validate_dem example_dem_1x1 [example_contour]
          = Inr \<lparr> rmse = 10, maxDeviation = 10, contourMatchPercentage = 0, sampleCount = 1 \<rparr>
      \<and> rmse \<lparr> rmse = 10, maxDeviation = 10, contourMatchPercentage = 0, sampleCount = 1 \<rparr> > 2"
    using w example_validate by simp
  note T1 = rmse_gate_fails_job [where w = example_world_rmse and contours = "[example_contour]"
      and dem = example_dem_1x1
      and v = "\<lparr> rmse = 10, maxDeviation = 10, contourMatchPercentage = 0, sampleCount = 1 \<rparr>",
      THEN conjunct1, rule_format, OF h]
  note T2 = rmse_gate_fails_job [where w = example_world_empty,
      THEN conjunct2, THEN conjunct1, rule_format, OF w(4)]
  show ?thesis using T1 T2 w by (simp add: example_fmt_def)
qed

text \<open>
  The claim as the spec states it fails: the run that fails the RMSE gate and the run with no
  contours surface the same failure type.
\<close>

theorem rmse_failure_type_counterexample:
  "run_job example_world_rmse
     = Inl (ValueError ''DEM validation failed: RMSE 10.00m exceeds threshold'')
   \<and> run_job example_world_empty = Inl (ValueError ''No contour data found for project'')
   \<and> failure_type (run_job example_world_rmse) = failure_type (run_job example_world_empty)"
  by (simp add: run_job_def failure_type_def example_world_rmse_def example_world_empty_def
        example_validate example_fmt_def)

end
